theory Spec2Isabelle
  imports Main
begin

section \<open>JavaScript values\<close>

text \<open>
  The library handles untyped JSON: response bodies (\<open>res.data\<close>, of type \<open>any\<close>),
  the fetched certificate document, JWT payloads and custom claims. A value is one of the
  JSON kinds or \<open>undefined\<close> (what reading a missing property gives). Numbers are the
  integers; how one beyond the safe integers is printed is left to the runtime (see
  \<open>numberToString\<close>). An object is the list of its own properties, in enumeration order.
\<close>

datatype jsval =
    JUndefined
  | JNull
  | JBool bool
  | JNum int
  | JStr string
  | JArr "jsval list"
  | JObj "(string \<times> jsval) list"

type_synonym jsobject = "(string \<times> jsval) list"

text \<open>ToBoolean, as used by \<open>!v\<close> and \<open>if (v)\<close>.\<close>

fun falsy :: "jsval \<Rightarrow> bool" where
  "falsy JUndefined = True"
| "falsy JNull = True"
| "falsy (JBool b) = (\<not> b)"
| "falsy (JNum n) = (n = 0)"
| "falsy (JStr s) = (s = [])"
| "falsy (JArr xs) = False"
| "falsy (JObj kvs) = False"

text \<open>
  The names every object created by \<open>JSON.parse\<close> or an object literal inherits from
  \<open>Object.prototype\<close>.
\<close>

definition objectPrototypeNames :: "string list" where
  "objectPrototypeNames =
     [''constructor'', ''__proto__'', ''hasOwnProperty'', ''isPrototypeOf'',
      ''propertyIsEnumerable'', ''toLocaleString'', ''toString'', ''valueOf'',
      ''__defineGetter__'', ''__defineSetter__'', ''__lookupGetter__'', ''__lookupSetter__'']"

text \<open>
  \<open>obj[key]\<close> for a computed key on an object: the own property if there is one,
  otherwise the built-in function (or, for \<open>__proto__\<close>, the prototype object) inherited
  under that name, otherwise \<open>undefined\<close>. A built-in is truthy and is not a string.
\<close>

datatype lookup = Value jsval | Builtin string

definition getProperty :: "jsobject \<Rightarrow> string \<Rightarrow> lookup" where
  "getProperty obj key =
     (case map_of obj key of
        Some v \<Rightarrow> Value v
      | None \<Rightarrow> if key \<in> set objectPrototypeNames then Builtin key else Value JUndefined)"

fun falsyLookup :: "lookup \<Rightarrow> bool" where
  "falsyLookup (Value v) = falsy v"
| "falsyLookup (Builtin n) = False"

text \<open>
  ToPropertyKey of an optional string: \<open>data[header.kid]\<close> with \<open>header.kid\<close> absent
  reads the property named \<open>undefined\<close>.
\<close>

fun propertyKey :: "string option \<Rightarrow> string" where
  "propertyKey None = ''undefined''"
| "propertyKey (Some k) = k"

section \<open>Errors\<close>

text \<open>
  Every rejected promise and thrown exception is a value. \<open>Error m\<close> is an \<open>Error\<close>
  object with the message \<open>m\<close>: a string, or \<open>undefined\<close> when the constructor was given
  none. \<open>HttpRejected status body\<close> is the response with which the HTTP client rejects
  a request that was answered with a status outside 200-299. The others are raised by
  the runtime, by a failing connection, or by the JOSE library, whose
  \<open>JWTClaimValidationFailed\<close> carries the name of the claim and the reason.
\<close>

datatype error =
    Error jsval
  | TypeError
  | HttpRejected nat jsval
  | NetworkError
  | JWSInvalid
  | JWSSignatureVerificationFailed
  | JWTInvalid
  | JWTClaimValidationFailed string string
  | JWTExpired

section \<open>The JOSE library and the HTTP client, as the sources use them\<close>

datatype KeyLike = KeyLike string

text \<open>The protected header of a token: the sources read only \<open>kid\<close>.\<close>

record protectedHeader =
  kid :: "string option"

record response =
  status :: nat
  data :: jsval

datatype body = JsonBody jsval | FormBody "(string \<times> string) list"

record request =
  url :: string
  payload :: body
  headers :: "(string \<times> string) list"

text \<open>
  What lies outside the repository is a parameter: the clock, the answers of the HTTP
  servers, the cryptography of the JOSE library, and the printing of large numbers.
  \<^item> \<open>io_get u\<close> is the outcome of \<open>axios(u)\<close> for the two certificate documents: a
    rejection, or the parsed body, a JSON object from key ids to PEM certificates;
  \<^item> \<open>io_post history r\<close> is what comes back for the request \<open>r\<close>, posted after the
    requests of \<open>history\<close>: a failure of the connection, or the response of the server
    with its status and its parsed body;
  \<^item> \<open>jose_decodeProtectedHeader t\<close> decodes the header of the compact token \<open>t\<close>;
  \<^item> \<open>jose_parseX509 c\<close> imports the public key of the PEM certificate \<open>c\<close>;
  \<^item> \<open>jose_compactVerify k t\<close> checks the signature of \<open>t\<close> against \<open>k\<close> and gives the
    parsed payload (\<open>undefined\<close> when the payload is no JSON);
  \<^item> \<open>jose_importPKCS8\<close> and \<open>jose_sign\<close> import a private key and sign a claims set;
  \<^item> \<open>js_numberToString n\<close> is the text the runtime prints for a number beyond the safe
    integers, where a number is rounded and may print with an exponent.
\<close>

record env =
  now :: int
  io_get :: "string \<Rightarrow> error + jsobject"
  io_post :: "request list \<Rightarrow> request \<Rightarrow> error + response"
  jose_decodeProtectedHeader :: "string \<Rightarrow> error + protectedHeader"
  jose_parseX509 :: "string \<Rightarrow> error + KeyLike"
  jose_compactVerify :: "KeyLike \<Rightarrow> string \<Rightarrow> error + jsval"
  jose_importPKCS8 :: "string \<Rightarrow> error + KeyLike"
  jose_sign :: "KeyLike \<Rightarrow> jsobject \<Rightarrow> error + string"
  js_numberToString :: "int \<Rightarrow> string"

text \<open>
  \<open>importX509(x509, 'RS256')\<close>: a value that is not a string is refused with a
  TypeError before any parsing.
\<close>

fun importX509 :: "env \<Rightarrow> lookup \<Rightarrow> error + KeyLike" where
  "importX509 e (Value (JStr x509)) = jose_parseX509 e x509"
| "importX509 e v = Inl TypeError"

text \<open>The options the sources pass to \<open>jwtVerify\<close>.\<close>

record verifyOptions =
  issuer :: "string option"
  audience :: "string option"

definition noOptions :: verifyOptions where
  "noOptions = \<lparr>issuer = None, audience = None\<rparr>"

text \<open>
  The claim validation of \<open>jwtVerify\<close>, as the library (version 4.14 and later)
  documents and implements it. The payload must be a JSON object. A claim for which an
  option is given must be present: \<open>iss\<close> first, then \<open>aud\<close>. Then the values: with the
  \<open>issuer\<close> option the \<open>iss\<close> claim must be that string; with the \<open>audience\<close> option the
  \<open>aud\<close> claim must be that string or an array holding it; the value of an option that
  is the empty string is falsy and is not compared. Then \<open>iat\<close>, \<open>nbf\<close> and \<open>exp\<close>, when
  present, must be numbers, with \<open>nbf\<close> not after and \<open>exp\<close> after the current time (no
  clock tolerance is set by the sources).
\<close>

definition claim :: "jsobject \<Rightarrow> string \<Rightarrow> jsval" where
  "claim p name = (case map_of p name of Some v \<Rightarrow> v | None \<Rightarrow> JUndefined)"

fun isNumber :: "jsval \<Rightarrow> bool" where
  "isNumber (JNum n) = True"
| "isNumber v = False"

fun checkAudiencePresence :: "jsval \<Rightarrow> string \<Rightarrow> bool" where
  "checkAudiencePresence (JStr s) a = (s = a)"
| "checkAudiencePresence (JArr xs) a = (JStr a \<in> set xs)"
| "checkAudiencePresence v a = False"

definition issuerOk :: "verifyOptions \<Rightarrow> jsobject \<Rightarrow> bool" where
  "issuerOk opts p =
     (case issuer opts of None \<Rightarrow> True | Some i \<Rightarrow> i = [] \<or> claim p ''iss'' = JStr i)"

definition audienceOk :: "verifyOptions \<Rightarrow> jsobject \<Rightarrow> bool" where
  "audienceOk opts p =
     (case audience opts of
        None \<Rightarrow> True
      | Some a \<Rightarrow> a = [] \<or> checkAudiencePresence (claim p ''aud'') a)"

definition iatOk :: "jsobject \<Rightarrow> bool" where
  "iatOk p = (claim p ''iat'' = JUndefined \<or> isNumber (claim p ''iat''))"

fun notBefore :: "int \<Rightarrow> jsval \<Rightarrow> error option" where
  "notBefore t JUndefined = None"
| "notBefore t (JNum nbf) =
     (if nbf > t then Some (JWTClaimValidationFailed ''nbf'' ''check_failed'') else None)"
| "notBefore t v = Some (JWTClaimValidationFailed ''nbf'' ''invalid'')"

fun notExpired :: "int \<Rightarrow> jsval \<Rightarrow> error option" where
  "notExpired t JUndefined = None"
| "notExpired t (JNum exp) = (if exp \<le> t then Some JWTExpired else None)"
| "notExpired t v = Some (JWTClaimValidationFailed ''exp'' ''invalid'')"

text \<open>\<open>name in payload\<close>, required when the option for the claim is given.\<close>

definition missing :: "string option \<Rightarrow> jsobject \<Rightarrow> string \<Rightarrow> bool" where
  "missing option p name = (option \<noteq> None \<and> map_of p name = None)"

definition jwtClaimsSet :: "verifyOptions \<Rightarrow> int \<Rightarrow> jsval \<Rightarrow> error + jsval" where
  "jwtClaimsSet opts t pl =
     (case pl of
        JObj p \<Rightarrow>
          if missing (issuer opts) p ''iss''
            then Inl (JWTClaimValidationFailed ''iss'' ''missing'')
          else if missing (audience opts) p ''aud''
            then Inl (JWTClaimValidationFailed ''aud'' ''missing'')
          else if \<not> issuerOk opts p then Inl (JWTClaimValidationFailed ''iss'' ''check_failed'')
          else if \<not> audienceOk opts p
            then Inl (JWTClaimValidationFailed ''aud'' ''check_failed'')
          else if \<not> iatOk p then Inl (JWTClaimValidationFailed ''iat'' ''invalid'')
          else (case notBefore t (claim p ''nbf'') of
                  Some err \<Rightarrow> Inl err
                | None \<Rightarrow>
                    (case notExpired t (claim p ''exp'') of
                       Some err \<Rightarrow> Inl err
                     | None \<Rightarrow> Inr (JObj p)))
      | _ \<Rightarrow> Inl JWTInvalid)"

text \<open>\<open>jwtVerify(jwt, key, options)\<close>: the signature first, then the claims.\<close>

definition jwtVerify :: "env \<Rightarrow> string \<Rightarrow> KeyLike \<Rightarrow> verifyOptions \<Rightarrow> error + jsval" where
  "jwtVerify e jwt key opts =
     (case jose_compactVerify e key jwt of
        Inl err \<Rightarrow> Inl err
      | Inr pl \<Rightarrow> jwtClaimsSet opts (now e) pl)"

section \<open>google-oauth.ts: verifyIdToken\<close>

definition securetokenCertsUrl :: string where
  "securetokenCertsUrl =
     ''https://www.googleapis.com/robot/v1/metadata/x509/securetoken@system.gserviceaccount.com''"

text \<open>
  The module-level \<open>verifyIdToken(idToken)\<close>: fetch the certificates, decode the header,
  read \<open>data[header.kid]\<close>, import it, verify the token with no options.
\<close>

definition verifyIdToken :: "env \<Rightarrow> string \<Rightarrow> error + jsval" where
  "verifyIdToken e idToken =
     (case io_get e securetokenCertsUrl of
        Inl err \<Rightarrow> Inl err
      | Inr keys \<Rightarrow>
          (case jose_decodeProtectedHeader e idToken of
             Inl err \<Rightarrow> Inl err
           | Inr header \<Rightarrow>
               (case importX509 e (getProperty keys (propertyKey (kid header))) of
                  Inl err \<Rightarrow> Inl err
                | Inr publicKey \<Rightarrow> jwtVerify e idToken publicKey noOptions)))"

section \<open>The FirebaseAuth class: configuration and token verification\<close>

datatype Cache = CloudflareKv string

record FirebaseConfig =
  projectId :: string
  apiKey :: string
  serviceAccountEmail :: string
  privateKey :: string
  cache :: "Cache option"

definition BASE_URL :: string where
  "BASE_URL = ''https://identitytoolkit.googleapis.com/v1/''"

definition publicKeysUrl :: string where
  "publicKeysUrl = ''https://www.googleapis.com/identitytoolkit/v3/relyingparty/publicKeys''"

definition sessionOptions :: "FirebaseConfig \<Rightarrow> verifyOptions" where
  "sessionOptions config =
     \<lparr>issuer = Some (''https://session.firebase.google.com/'' @ projectId config),
      audience = Some (projectId config)\<rparr>"

text \<open>
  \<open>verifySessionCookie(sessionCookie)\<close>: as above, with the guard
  \<open>if (!data[header.kid]) throw Error('Cannot find public key')\<close> before the import, and
  the issuer and audience of the configured project.
\<close>

definition verifySessionCookie :: "env \<Rightarrow> FirebaseConfig \<Rightarrow> string \<Rightarrow> error + jsval" where
  "verifySessionCookie e config sessionCookie =
     (case io_get e publicKeysUrl of
        Inl err \<Rightarrow> Inl err
      | Inr keys \<Rightarrow>
          (case jose_decodeProtectedHeader e sessionCookie of
             Inl err \<Rightarrow> Inl err
           | Inr header \<Rightarrow>
               if falsyLookup (getProperty keys (propertyKey (kid header)))
               then Inl (Error (JStr ''Cannot find public key''))
               else
                 (case importX509 e (getProperty keys (propertyKey (kid header))) of
                    Inl err \<Rightarrow> Inl err
                  | Inr publicKey \<Rightarrow>
                      jwtVerify e sessionCookie publicKey (sessionOptions config))))"

text \<open>
  The method \<open>FirebaseAuth.verifyIdToken(idToken, customData = {})\<close> calls the module's
  function with both arguments; that function declares one parameter, so the second
  argument is dropped by the call.
\<close>

definition FirebaseAuth_verifyIdToken ::
  "env \<Rightarrow> FirebaseConfig \<Rightarrow> string \<Rightarrow> jsobject \<Rightarrow> error + jsval" where
  "FirebaseAuth_verifyIdToken e config idToken customData = verifyIdToken e idToken"

section \<open>Reading and printing values\<close>

text \<open>
  The properties the sources read by name from a response body. No built-in prototype
  defines any of them, so on a string, a number, a boolean or an array the read gives
  \<open>undefined\<close>; on \<open>null\<close> and \<open>undefined\<close> it throws a TypeError.
\<close>

datatype member = Users | IdToken | SessionCookie | AccessToken

fun memberName :: "member \<Rightarrow> string" where
  "memberName Users = ''users''"
| "memberName IdToken = ''idToken''"
| "memberName SessionCookie = ''sessionCookie''"
| "memberName AccessToken = ''access_token''"

fun getMember :: "jsval \<Rightarrow> member \<Rightarrow> error + jsval" where
  "getMember JUndefined m = Inl TypeError"
| "getMember JNull m = Inl TypeError"
| "getMember (JObj obj) m = Inr (claim obj (memberName m))"
| "getMember v m = Inr JUndefined"

text \<open>\<open>v[0]\<close>: the first element of an array, the first character of a string.\<close>

fun getFirst :: "jsval \<Rightarrow> error + jsval" where
  "getFirst JUndefined = Inl TypeError"
| "getFirst JNull = Inl TypeError"
| "getFirst (JArr []) = Inr JUndefined"
| "getFirst (JArr (x # xs)) = Inr x"
| "getFirst (JStr []) = Inr JUndefined"
| "getFirst (JStr (c # cs)) = Inr (JStr [c])"
| "getFirst (JObj obj) = Inr (claim obj ''0'')"
| "getFirst v = Inr JUndefined"

text \<open>
  Number to string, as \<open>n + ''\<close>, string concatenation and \<open>JSON.stringify\<close> print a
  number: a safe integer (at most \<open>Number.MAX_SAFE_INTEGER\<close> in magnitude) prints its
  decimal digits; beyond that the runtime rounds, and the text is the environment's.
\<close>

function natToString :: "nat \<Rightarrow> string" where
  "natToString n =
     (if n < 10 then [''0123456789'' ! n]
      else natToString (n div 10) @ [''0123456789'' ! (n mod 10)])"
  by pat_completeness auto
termination
  by (relation "measure id") auto

definition MAX_SAFE_INTEGER :: int where
  "MAX_SAFE_INTEGER = 9007199254740991"

definition numberToString :: "env \<Rightarrow> int \<Rightarrow> string" where
  "numberToString e n =
     (if MAX_SAFE_INTEGER < \<bar>n\<bar> then js_numberToString e n
      else if n < 0 then CHR ''-'' # natToString (nat (- n))
      else natToString (nat n))"

text \<open>
  ToString, as string concatenation applies it. An array prints its elements joined by
  commas, \<open>null\<close> and \<open>undefined\<close> elements as the empty string. An object prints through
  the inherited \<open>toString\<close>; an own property of that name, a JSON value and so not
  callable, makes the conversion throw a TypeError.
\<close>

fun toStringJS :: "env \<Rightarrow> jsval \<Rightarrow> error + string"
  and joinJS :: "env \<Rightarrow> jsval list \<Rightarrow> error + string" where
  "toStringJS e JUndefined = Inr ''undefined''"
| "toStringJS e JNull = Inr ''null''"
| "toStringJS e (JBool b) = Inr (if b then ''true'' else ''false'')"
| "toStringJS e (JNum n) = Inr (numberToString e n)"
| "toStringJS e (JStr s) = Inr s"
| "toStringJS e (JArr xs) = joinJS e xs"
| "toStringJS e (JObj obj) =
     (if map_of obj ''toString'' = None then Inr ''[object Object]'' else Inl TypeError)"
| "joinJS e [] = Inr []"
| "joinJS e (x # xs) =
     (case (if x = JUndefined \<or> x = JNull then Inr [] else toStringJS e x) of
        Inl err \<Rightarrow> Inl err
      | Inr s \<Rightarrow>
          if xs = [] then Inr s
          else (case joinJS e xs of Inl err \<Rightarrow> Inl err | Inr t \<Rightarrow> Inr (s @ '','' @ t)))"

text \<open>
  The value thrown by \<open>throw Error(v)\<close>: an \<open>Error\<close> whose message is \<open>v\<close> converted to
  a string (no message for \<open>undefined\<close>), or the TypeError of a conversion that throws.
\<close>

definition errorOf :: "env \<Rightarrow> jsval \<Rightarrow> error" where
  "errorOf e v =
     (if v = JUndefined then Error JUndefined
      else (case toStringJS e v of Inl err \<Rightarrow> err | Inr s \<Rightarrow> Error (JStr s)))"

text \<open>
  \<open>JSON.stringify\<close>: \<open>undefined\<close> has no JSON text, so it is left out of an object and
  printed as \<open>null\<close> in an array.
\<close>

definition hexDigit :: "nat \<Rightarrow> char" where
  "hexDigit n = ''0123456789abcdef'' ! n"

definition escapeChar :: "char \<Rightarrow> string" where
  "escapeChar c =
     (if c = CHR 0x22 then [CHR 0x5C, CHR 0x22]
      else if c = CHR 0x5C then [CHR 0x5C, CHR 0x5C]
      else if c = CHR 0x08 then [CHR 0x5C, CHR ''b'']
      else if c = CHR 0x09 then [CHR 0x5C, CHR ''t'']
      else if c = CHR 0x0A then [CHR 0x5C, CHR ''n'']
      else if c = CHR 0x0C then [CHR 0x5C, CHR ''f'']
      else if c = CHR 0x0D then [CHR 0x5C, CHR ''r'']
      else if (of_char c :: nat) < 32
        then [CHR 0x5C, CHR ''u'', CHR ''0'', CHR ''0'',
              hexDigit ((of_char c :: nat) div 16), hexDigit ((of_char c :: nat) mod 16)]
      else [c])"

definition quoteJSONString :: "string \<Rightarrow> string" where
  "quoteJSONString s = CHR 0x22 # concat (map escapeChar s) @ [CHR 0x22]"

fun joinWith :: "string \<Rightarrow> string list \<Rightarrow> string" where
  "joinWith sep [] = []"
| "joinWith sep [x] = x"
| "joinWith sep (x # y # ys) = x @ sep @ joinWith sep (y # ys)"

fun stringify :: "env \<Rightarrow> jsval \<Rightarrow> string option"
  and stringifyElements :: "env \<Rightarrow> jsval list \<Rightarrow> string list"
  and stringifyProperties :: "env \<Rightarrow> (string \<times> jsval) list \<Rightarrow> string list" where
  "stringify e JUndefined = None"
| "stringify e JNull = Some ''null''"
| "stringify e (JBool b) = Some (if b then ''true'' else ''false'')"
| "stringify e (JNum n) = Some (numberToString e n)"
| "stringify e (JStr s) = Some (quoteJSONString s)"
| "stringify e (JArr xs) = Some (''['' @ joinWith '','' (stringifyElements e xs) @ '']'')"
| "stringify e (JObj obj) = Some (''{'' @ joinWith '','' (stringifyProperties e obj) @ ''}'')"
| "stringifyElements e [] = []"
| "stringifyElements e (x # xs) =
     (case stringify e x of None \<Rightarrow> ''null'' | Some s \<Rightarrow> s) # stringifyElements e xs"
| "stringifyProperties e [] = []"
| "stringifyProperties e (kv # kvs) =
     (case stringify e (snd kv) of
        None \<Rightarrow> stringifyProperties e kvs
      | Some s \<Rightarrow> (quoteJSONString (fst kv) @ '':'' @ s) # stringifyProperties e kvs)"

text \<open>\<open>JSON.stringify\<close> of an object, which always has a JSON text.\<close>

definition JSON_stringify :: "env \<Rightarrow> jsobject \<Rightarrow> string" where
  "JSON_stringify e obj = ''{'' @ joinWith '','' (stringifyProperties e obj) @ ''}''"

section \<open>The world the requests change\<close>

text \<open>
  Modelled from the spec: the \<open>Cache\<close> interface (\<open>./cache/cache\<close>) and its
  implementations are not among the sources; the spec describes "a cache" with
  get/put-with-expiry semantics. A cache keeps, for a key, a value and the time at which
  it expires; \<open>get\<close> gives the value while it has not expired and \<open>null\<close> otherwise.

  The world of a call is the contents of the caches and the requests posted so far.
\<close>

record world =
  kv :: "Cache \<Rightarrow> string \<Rightarrow> (jsval \<times> int) option"
  sent :: "request list"

definition cache_get :: "env \<Rightarrow> Cache \<Rightarrow> string \<Rightarrow> world \<Rightarrow> jsval" where
  "cache_get e c key w =
     (case kv w c key of
        None \<Rightarrow> JNull
      | Some entry \<Rightarrow> if now e < snd entry then fst entry else JNull)"

definition cache_put :: "env \<Rightarrow> Cache \<Rightarrow> string \<Rightarrow> jsval \<Rightarrow> int \<Rightarrow> world \<Rightarrow> world" where
  "cache_put e c key v expirationTtl w =
     w\<lparr>kv := (kv w)(c := (kv w c)(key \<mapsto> (v, now e + expirationTtl)))\<rparr>"

text \<open>
  \<open>axios.post\<close> (the redaxios client): the request is sent; a failed connection
  rejects; a response is returned when its status is in 200-299 (\<open>res.ok\<close>), and
  otherwise the client rejects with the response.
\<close>

definition ok :: "response \<Rightarrow> bool" where
  "ok res = (200 \<le> status res \<and> status res \<le> 299)"

definition axios_post :: "env \<Rightarrow> request \<Rightarrow> world \<Rightarrow> (error + response) \<times> world" where
  "axios_post e r w =
     (case io_post e (sent w) r of
        Inl err \<Rightarrow> Inl err
      | Inr res \<Rightarrow> if ok res then Inr res else Inl (HttpRejected (status res) (data res)),
      w\<lparr>sent := sent w @ [r]\<rparr>)"

section \<open>google-oauth.ts: getAuthToken\<close>

text \<open>
  \<open>getAuthToken(serviceAccountEmail, privateKey, scope)\<close>: import the key, sign a JWT
  that expires in one hour, post it to the token endpoint, return
  \<open>res.data.access_token\<close>.
\<close>

definition tokenEndpoint :: string where
  "tokenEndpoint = ''https://oauth2.googleapis.com/token''"

definition getAuthToken ::
  "env \<Rightarrow> string \<Rightarrow> string \<Rightarrow> string \<Rightarrow> world \<Rightarrow> (error + jsval) \<times> world" where
  "getAuthToken e email key scope w =
     (case jose_importPKCS8 e key of
        Inl err \<Rightarrow> (Inl err, w)
      | Inr ecPrivateKey \<Rightarrow>
          (case jose_sign e ecPrivateKey
                  [(''scope'', JStr scope), (''iss'', JStr email),
                   (''aud'', JStr tokenEndpoint), (''exp'', JNum (now e + 3600)),
                   (''iat'', JNum (now e))] of
             Inl err \<Rightarrow> (Inl err, w)
           | Inr jwt \<Rightarrow>
               (case axios_post e
                       \<lparr>url = tokenEndpoint,
                        payload = FormBody
                          [(''grant_type'', ''urn:ietf:params:oauth:grant-type:jwt-bearer''),
                           (''assertion'', jwt)],
                        headers = [(''Content-Type'', ''application/x-www-form-urlencoded'')]\<rparr>
                       w of
                  (Inl err, w') \<Rightarrow> (Inl err, w')
                | (Inr res, w') \<Rightarrow> (getMember (data res) AccessToken, w'))))"

section \<open>The FirebaseAuth class: requests\<close>

text \<open>
  \<open>withCache(action, key, expiration)\<close>: without a cache run the action; with one,
  read the key and, if the value is falsy, run the action and store its result.
\<close>

definition withCache ::
  "env \<Rightarrow> FirebaseConfig \<Rightarrow> (world \<Rightarrow> (error + jsval) \<times> world) \<Rightarrow> string \<Rightarrow> int \<Rightarrow>
   world \<Rightarrow> (error + jsval) \<times> world" where
  "withCache e config action key expiration w =
     (case cache config of
        None \<Rightarrow> action w
      | Some c \<Rightarrow>
          if falsy (cache_get e c key w)
          then (case action w of
                  (Inl err, w') \<Rightarrow> (Inl err, w')
                | (Inr result, w') \<Rightarrow> (Inr result, cache_put e c key result expiration w'))
          else (Inr (cache_get e c key w), w))"

definition getToken :: "env \<Rightarrow> FirebaseConfig \<Rightarrow> world \<Rightarrow> (error + jsval) \<times> world" where
  "getToken e config =
     withCache e config
       (getAuthToken e (serviceAccountEmail config) (privateKey config)
          ''https://www.googleapis.com/auth/identitytoolkit'')
       ''google-oauth'' 3600"

text \<open>
  \<open>sendFirebaseAuthPostRequest(formData, endpoint)\<close>: post the form data; a status
  other than 200 throws \<open>Error(res.data)\<close>, otherwise the body is returned.
\<close>

definition sendFirebaseAuthPostRequest ::
  "env \<Rightarrow> FirebaseConfig \<Rightarrow> jsobject \<Rightarrow> string \<Rightarrow> world \<Rightarrow> (error + jsval) \<times> world" where
  "sendFirebaseAuthPostRequest e config formData endpoint w =
     (case axios_post e
             \<lparr>url = BASE_URL @ ''accounts:'' @ endpoint @ ''?key='' @ apiKey config,
              payload = JsonBody (JObj formData), headers = []\<rparr> w of
        (Inl err, w') \<Rightarrow> (Inl err, w')
      | (Inr res, w') \<Rightarrow>
          if status res \<noteq> 200 then (Inl (errorOf e (data res)), w')
          else (Inr (data res), w'))"

text \<open>\<open>lookupUser(idToken)\<close> returns \<open>data.users[0]\<close>.\<close>

definition lookupUser ::
  "env \<Rightarrow> FirebaseConfig \<Rightarrow> jsval \<Rightarrow> world \<Rightarrow> (error + jsval) \<times> world" where
  "lookupUser e config idToken w =
     (case sendFirebaseAuthPostRequest e config [(''idToken'', idToken)] ''lookup'' w of
        (Inl err, w') \<Rightarrow> (Inl err, w')
      | (Inr d, w') \<Rightarrow>
          (case getMember d Users of
             Inl err \<Rightarrow> (Inl err, w')
           | Inr users \<Rightarrow> (getFirst users, w')))"

text \<open>
  \<open>signInWithEmailAndPassword(email, password)\<close>: post the credentials, take the body
  as the token, look the user of \<open>token.idToken\<close> up, return both.
\<close>

definition signInWithEmailAndPassword ::
  "env \<Rightarrow> FirebaseConfig \<Rightarrow> string \<Rightarrow> string \<Rightarrow> world \<Rightarrow> (error + jsval \<times> jsval) \<times> world" where
  "signInWithEmailAndPassword e config email password w =
     (case sendFirebaseAuthPostRequest e config
             [(''email'', JStr email), (''password'', JStr password),
              (''returnSecureToken'', JStr ''true'')] ''signInWithPassword'' w of
        (Inl err, w') \<Rightarrow> (Inl err, w')
      | (Inr token, w') \<Rightarrow>
          (case getMember token IdToken of
             Inl err \<Rightarrow> (Inl err, w')
           | Inr idToken \<Rightarrow>
               (case lookupUser e config idToken w' of
                  (Inl err, w'') \<Rightarrow> (Inl err, w'')
                | (Inr user, w'') \<Rightarrow> (Inr (token, user), w''))))"



text \<open>\<open>signUpWithEmailAndPassword(email, password)\<close>: the same against \<open>signUp\<close>.\<close>

definition signUpWithEmailAndPassword ::
  "env \<Rightarrow> FirebaseConfig \<Rightarrow> string \<Rightarrow> string \<Rightarrow> world \<Rightarrow> (error + jsval \<times> jsval) \<times> world" where
  "signUpWithEmailAndPassword e config email password w =
     (case sendFirebaseAuthPostRequest e config
             [(''email'', JStr email), (''password'', JStr password),
              (''returnSecureToken'', JStr ''true'')] ''signUp'' w of
        (Inl err, w') \<Rightarrow> (Inl err, w')
      | (Inr token, w') \<Rightarrow>
          (case getMember token IdToken of
             Inl err \<Rightarrow> (Inl err, w')
           | Inr idToken \<Rightarrow>
               (case lookupUser e config idToken w' of
                  (Inl err, w'') \<Rightarrow> (Inl err, w'')
                | (Inr user, w'') \<Rightarrow> (Inr (token, user), w''))))"

text \<open>
  \<open>setCustomUserClaims(uid, customUserClaims)\<close>: \<open>null\<close> claims become \<open>{}\<close>; the
  OAuth token is fetched; the claims are sent as the string
  \<open>JSON.stringify(customUserClaims)\<close> with the header \<open>'Bearer ' + token\<close>; a status other
  than 200 throws \<open>Error(res.data)\<close>, otherwise the body is returned.
\<close>

definition setCustomUserClaims ::
  "env \<Rightarrow> FirebaseConfig \<Rightarrow> string \<Rightarrow> jsobject option \<Rightarrow> world \<Rightarrow> (error + jsval) \<times> world" where
  "setCustomUserClaims e config uid customUserClaims w =
     (let claims = (case customUserClaims of None \<Rightarrow> [] | Some c \<Rightarrow> c) in
      case getToken e config w of
        (Inl err, w') \<Rightarrow> (Inl err, w')
      | (Inr token, w') \<Rightarrow>
          (case toStringJS e token of
             Inl err \<Rightarrow> (Inl err, w')
           | Inr bearer \<Rightarrow>
               (case axios_post e
                       \<lparr>url = BASE_URL @ ''projects/'' @ projectId config @ ''/accounts:update'',
                        payload = JsonBody (JObj
                          [(''localId'', JStr uid),
                           (''customAttributes'', JStr (JSON_stringify e claims))]),
                        headers = [(''Authorization'', ''Bearer '' @ bearer)]\<rparr> w' of
                  (Inl err, w'') \<Rightarrow> (Inl err, w'')
                | (Inr res, w'') \<Rightarrow>
                    if status res \<noteq> 200 then (Inl (errorOf e (data res)), w'')
                    else (Inr (data res), w''))))"


section \<open>Predicates used in the statements\<close>

text \<open>The payloads the claim validation accepts, under given options and time.\<close>

definition claimsValid :: "verifyOptions \<Rightarrow> int \<Rightarrow> jsobject \<Rightarrow> bool" where
  "claimsValid opts t p =
     (\<not> missing (issuer opts) p ''iss'' \<and> \<not> missing (audience opts) p ''aud'' \<and>
      issuerOk opts p \<and> audienceOk opts p \<and> iatOk p \<and>
      notBefore t (claim p ''nbf'') = None \<and> notExpired t (claim p ''exp'') = None)"

text \<open>
  The conditions of the statements, read off the payload itself and not through the
  functions of the library: what a property of the payload, if there is one, must be.
  \<^item> The issued-at time is absent or a number.
  \<^item> The not-before time is absent or a number that is not after the time \<open>t\<close>.
  \<^item> The expiry is absent or a number that is after the time \<open>t\<close>.
  \<^item> The audience is the string \<open>a\<close>, or an array that holds the string \<open>a\<close>.
\<close>

fun absentOrNumber :: "jsval option \<Rightarrow> bool" where
  "absentOrNumber None = True"
| "absentOrNumber (Some JUndefined) = True"
| "absentOrNumber (Some (JNum x)) = True"
| "absentOrNumber (Some v) = False"

fun absentOrReached :: "int \<Rightarrow> jsval option \<Rightarrow> bool" where
  "absentOrReached t None = True"
| "absentOrReached t (Some JUndefined) = True"
| "absentOrReached t (Some (JNum x)) = (x \<le> t)"
| "absentOrReached t (Some v) = False"

fun absentOrAhead :: "int \<Rightarrow> jsval option \<Rightarrow> bool" where
  "absentOrAhead t None = True"
| "absentOrAhead t (Some JUndefined) = True"
| "absentOrAhead t (Some (JNum x)) = (t < x)"
| "absentOrAhead t (Some v) = False"

fun namesAudience :: "string \<Rightarrow> jsval option \<Rightarrow> bool" where
  "namesAudience a (Some (JStr s)) = (s = a)"
| "namesAudience a (Some (JArr xs)) = (JStr a \<in> set xs)"
| "namesAudience a v = False"

text \<open>
  The time claims of a valid token: not expired, the not-before time reached, and each
  of \<open>iat\<close>, \<open>nbf\<close> and \<open>exp\<close> absent or a number.
\<close>

definition timeClaimsValid :: "int \<Rightarrow> jsobject \<Rightarrow> bool" where
  "timeClaimsValid t p =
     (absentOrNumber (map_of p ''iat'') \<and> absentOrReached t (map_of p ''nbf'') \<and>
      absentOrAhead t (map_of p ''exp''))"

text \<open>A session cookie payload issued by and for the configured project.\<close>

definition sessionClaimsValid :: "FirebaseConfig \<Rightarrow> int \<Rightarrow> jsobject \<Rightarrow> bool" where
  "sessionClaimsValid config t p =
     (map_of p ''iss'' =
        Some (JStr (''https://session.firebase.google.com/'' @ projectId config)) \<and>
      namesAudience (projectId config) (map_of p ''aud'') \<and>
      timeClaimsValid t p)"

text \<open>An expired payload: its \<open>exp\<close> claim is a number, a time that has been reached.\<close>

fun reached :: "int \<Rightarrow> jsval option \<Rightarrow> bool" where
  "reached t (Some (JNum x)) = (x \<le> t)"
| "reached t v = False"

definition expired :: "int \<Rightarrow> jsobject \<Rightarrow> bool" where
  "expired t p = reached t (map_of p ''exp'')"

section \<open>Example environments\<close>

text \<open>
  A certificate document with one key, a JOSE library that decodes every token to the
  header \<open>{kid: k}\<close> and accepts the signature of the token \<open>signed\<close> under the key of
  \<open>CERT1\<close> with the payload \<open>pl\<close>, and a server \<open>srv\<close>. The time is 1000.
\<close>

definition demoKeys :: jsobject where
  "demoKeys = [(''key1'', JStr ''CERT1'')]"

definition demoEnv ::
  "string option \<Rightarrow> jsval \<Rightarrow> (request list \<Rightarrow> request \<Rightarrow> error + response) \<Rightarrow> env" where
  "demoEnv k pl srv =
     \<lparr>now = 1000,
      io_get = (\<lambda>u. Inr demoKeys),
      io_post = srv,
      jose_decodeProtectedHeader = (\<lambda>t. Inr \<lparr>kid = k\<rparr>),
      jose_parseX509 = (\<lambda>c. if c = ''CERT1'' then Inr (KeyLike ''PK1'') else Inl TypeError),
      jose_compactVerify =
        (\<lambda>key t. if key = KeyLike ''PK1'' \<and> t = ''signed'' then Inr pl
                  else Inl JWSSignatureVerificationFailed),
      jose_importPKCS8 = (\<lambda>s. Inr (KeyLike s)),
      jose_sign = (\<lambda>key c. Inr ''assertion''),
      js_numberToString = (\<lambda>n. ''1e+21'')\<rparr>"

definition noServer :: "request list \<Rightarrow> request \<Rightarrow> error + response" where
  "noServer history r = Inl NetworkError"

definition demoConfig :: "Cache option \<Rightarrow> FirebaseConfig" where
  "demoConfig c =
     \<lparr>projectId = ''demo'', apiKey = ''KEY'', serviceAccountEmail = ''sa@demo'',
      privateKey = ''PRIVATE'', cache = c\<rparr>"

text \<open>A configuration whose project id is the empty string.\<close>

definition emptyProjectConfig :: FirebaseConfig where
  "emptyProjectConfig =
     \<lparr>projectId = [], apiKey = ''KEY'', serviceAccountEmail = ''sa@demo'',
      privateKey = ''PRIVATE'', cache = None\<rparr>"

text \<open>
  Payloads: a session cookie of the configured project, an ID token of the configured
  project, an ID token of another project, a token that is not valid yet, an expired
  session cookie, a session cookie for another audience, a session cookie with the
  issuer of no project for the audience \<open>other\<close>, and one whose expiry is a string.
\<close>

definition sessionPayload :: jsobject where
  "sessionPayload =
     [(''iss'', JStr ''https://session.firebase.google.com/demo''), (''aud'', JStr ''demo''),
      (''exp'', JNum 2000)]"

definition idTokenPayload :: jsobject where
  "idTokenPayload =
     [(''iss'', JStr ''https://securetoken.google.com/demo''), (''aud'', JStr ''demo''),
      (''exp'', JNum 2000)]"

definition otherProjectPayload :: jsobject where
  "otherProjectPayload =
     [(''iss'', JStr ''https://securetoken.google.com/other''), (''aud'', JStr ''other''),
      (''exp'', JNum 2000)]"

definition notYetValidPayload :: jsobject where
  "notYetValidPayload = [(''nbf'', JNum 1500), (''exp'', JNum 2000)]"

definition expiredPayload :: jsobject where
  "expiredPayload =
     [(''iss'', JStr ''https://session.firebase.google.com/demo''), (''aud'', JStr ''demo''),
      (''exp'', JNum 900)]"

definition otherAudiencePayload :: jsobject where
  "otherAudiencePayload =
     [(''iss'', JStr ''https://session.firebase.google.com/demo''), (''aud'', JStr ''other''),
      (''exp'', JNum 2000)]"

definition noProjectPayload :: jsobject where
  "noProjectPayload =
     [(''iss'', JStr ''https://session.firebase.google.com/''), (''aud'', JStr ''other''),
      (''exp'', JNum 2000)]"

definition textExpiryPayload :: jsobject where
  "textExpiryPayload =
     [(''iss'', JStr ''https://session.firebase.google.com/demo''), (''aud'', JStr ''demo''),
      (''exp'', JStr ''2000'')]"

section \<open>The requests of the operations\<close>

text \<open>
  Names for the requests the operations build, and for the world after a request has
  been posted, used in the statements below.
\<close>

definition accountsRequest :: "FirebaseConfig \<Rightarrow> string \<Rightarrow> jsobject \<Rightarrow> request" where
  "accountsRequest config endpoint formData =
     \<lparr>url = BASE_URL @ ''accounts:'' @ endpoint @ ''?key='' @ apiKey config,
      payload = JsonBody (JObj formData), headers = []\<rparr>"

definition credentials :: "string \<Rightarrow> string \<Rightarrow> jsobject" where
  "credentials email password =
     [(''email'', JStr email), (''password'', JStr password),
      (''returnSecureToken'', JStr ''true'')]"

definition claimsRequest :: "FirebaseConfig \<Rightarrow> string \<Rightarrow> string \<Rightarrow> string \<Rightarrow> request" where
  "claimsRequest config bearer uid attributes =
     \<lparr>url = BASE_URL @ ''projects/'' @ projectId config @ ''/accounts:update'',
      payload = JsonBody (JObj
        [(''localId'', JStr uid), (''customAttributes'', JStr attributes)]),
      headers = [(''Authorization'', ''Bearer '' @ bearer)]\<rparr>"


definition posted :: "request \<Rightarrow> world \<Rightarrow> world" where
  "posted r w = w\<lparr>sent := sent w @ [r]\<rparr>"

definition identityScope :: string where
  "identityScope = ''https://www.googleapis.com/auth/identitytoolkit''"

text \<open>
  How the answer to a request is surfaced. A failed connection is passed on. A response
  with status 200 gives what \<open>derive\<close> makes of the body. A response with another status
  in 200-299 makes the operation throw \<open>Error(res.data)\<close>. A response with a status
  outside 200-299 is the rejection of the HTTP client, with the response.
\<close>

definition surfaces :: "env \<Rightarrow> error + response \<Rightarrow> (jsval \<Rightarrow> error + 'a) \<Rightarrow> error + 'a" where
  "surfaces e answer derive =
     (case answer of
        Inl err \<Rightarrow> Inl err
      | Inr res \<Rightarrow>
          if status res = 200 then derive (data res)
          else if 200 \<le> status res \<and> status res \<le> 299 then Inl (errorOf e (data res))
          else Inl (HttpRejected (status res) (data res)))"

text \<open>A claims object whose JSON text is longer than 1000 bytes.\<close>

definition bigClaims :: jsobject where
  "bigClaims = [(''role'', JStr (replicate 1001 (CHR ''a'')))]"

text \<open>Example worlds and servers.\<close>

definition emptyWorld :: world where
  "emptyWorld = \<lparr>kv = (\<lambda>c key. None), sent = []\<rparr>"

definition cachedWorld :: "jsval \<Rightarrow> int \<Rightarrow> world" where
  "cachedWorld v expires =
     \<lparr>kv = (\<lambda>c key. if c = CloudflareKv ''NS'' \<and> key = ''google-oauth''
                      then Some (v, expires) else None),
      sent = []\<rparr>"

definition replyServer :: "nat \<Rightarrow> jsval \<Rightarrow> request list \<Rightarrow> request \<Rightarrow> error + response" where
  "replyServer code d history r = Inr \<lparr>status = code, data = d\<rparr>"

text \<open>
  A server that answers the token endpoint with an access token, a sign-in or sign-up
  with an ID token, a lookup with one user, the creation of a session cookie with the
  cookie, and everything else with an empty object.
\<close>

definition demoServer :: "request list \<Rightarrow> request \<Rightarrow> error + response" where
  "demoServer history r =
     (if url r = tokenEndpoint
        then Inr \<lparr>status = 200, data = JObj [(''access_token'', JStr ''OAUTH'')]\<rparr>
      else if payload r = JsonBody (JObj (credentials ''a@b.c'' ''secret''))
        then Inr \<lparr>status = 200, data = JObj [(''idToken'', JStr ''ID1'')]\<rparr>
      else if payload r = JsonBody (JObj [(''idToken'', JStr ''ID1'')])
        then Inr \<lparr>status = 200,
                  data = JObj [(''users'', JArr [JObj [(''email'', JStr ''a@b.c'')]])]\<rparr>
      else if url r = BASE_URL @ ''projects/demo:createSessionCookie''
        then Inr \<lparr>status = 200, data = JObj [(''sessionCookie'', JStr ''COOKIE'')]\<rparr>
      else Inr \<lparr>status = 200, data = JObj []\<rparr>)"

section \<open>Token verification: general facts\<close>

lemma jwtClaimsSet_Inr:
  "jwtClaimsSet opts t pl = Inr r \<longleftrightarrow> (\<exists>p. pl = JObj p \<and> r = JObj p \<and> claimsValid opts t p)"
  by (cases pl) (auto simp: jwtClaimsSet_def claimsValid_def split: option.splits)

lemma jwtClaimsSet_valid:
  "claimsValid opts t p \<Longrightarrow> jwtClaimsSet opts t (JObj p) = Inr (JObj p)"
  by (simp add: jwtClaimsSet_Inr)

lemma iatOk_iff: "iatOk p \<longleftrightarrow> absentOrNumber (map_of p ''iat'')"
  by (cases "(map_of p ''iat'')" rule: absentOrNumber.cases) (simp_all add: iatOk_def claim_def)

lemma notBefore_iff: "notBefore t (claim p ''nbf'') = None \<longleftrightarrow> absentOrReached t (map_of p ''nbf'')"
  by (cases "(t, map_of p ''nbf'')" rule: absentOrReached.cases) (simp_all add: claim_def)

lemma notExpired_iff: "notExpired t (claim p ''exp'') = None \<longleftrightarrow> absentOrAhead t (map_of p ''exp'')"
  by (cases "(t, map_of p ''exp'')" rule: absentOrAhead.cases) (simp_all add: claim_def)

lemma checkAudiencePresence_iff:
  "checkAudiencePresence (claim p ''aud'') a \<longleftrightarrow> namesAudience a (map_of p ''aud'')"
  by (cases "(a, map_of p ''aud'')" rule: namesAudience.cases) (simp_all add: claim_def)

lemma namesAudience_present: "namesAudience a v \<Longrightarrow> v \<noteq> None"
  by (cases "(a, v)" rule: namesAudience.cases) simp_all

lemma absentOrAhead_not_reached: "reached t v \<Longrightarrow> \<not> absentOrAhead t v"
  by (cases "(t, v)" rule: absentOrAhead.cases) simp_all

lemma jwtClaimsSet_expired:
  "expired t p \<Longrightarrow> isl (jwtClaimsSet opts t (JObj p))"
  using absentOrAhead_not_reached [of t "map_of p ''exp''"] notExpired_iff [of t p]
  by (auto simp: jwtClaimsSet_def expired_def split: option.splits)

lemma importX509_Inr:
  "importX509 e v = Inr key \<longleftrightarrow> (\<exists>cert. v = Value (JStr cert) \<and> jose_parseX509 e cert = Inr key)"
  by (cases "(e, v)" rule: importX509.cases) auto

lemma getProperty_string:
  "getProperty obj k = Value (JStr cert) \<longleftrightarrow> map_of obj k = Some (JStr cert)"
  by (auto simp: getProperty_def split: option.splits)

lemma getProperty_own: "map_of obj k = Some v \<Longrightarrow> getProperty obj k = Value v"
  by (simp add: getProperty_def)

lemma verifyIdToken_Inr:
  "verifyIdToken e t = Inr r \<longleftrightarrow>
    (\<exists>keys header cert key.
       io_get e securetokenCertsUrl = Inr keys \<and>
       jose_decodeProtectedHeader e t = Inr header \<and>
       map_of keys (propertyKey (kid header)) = Some (JStr cert) \<and>
       jose_parseX509 e cert = Inr key \<and>
       jwtVerify e t key noOptions = Inr r)"
proof
  assume "verifyIdToken e t = Inr r"
  then show "\<exists>keys header cert key.
       io_get e securetokenCertsUrl = Inr keys \<and>
       jose_decodeProtectedHeader e t = Inr header \<and>
       map_of keys (propertyKey (kid header)) = Some (JStr cert) \<and>
       jose_parseX509 e cert = Inr key \<and>
       jwtVerify e t key noOptions = Inr r"
    by (auto simp: verifyIdToken_def importX509_Inr getProperty_string split: sum.splits)
next
  assume "\<exists>keys header cert key.
       io_get e securetokenCertsUrl = Inr keys \<and>
       jose_decodeProtectedHeader e t = Inr header \<and>
       map_of keys (propertyKey (kid header)) = Some (JStr cert) \<and>
       jose_parseX509 e cert = Inr key \<and>
       jwtVerify e t key noOptions = Inr r"
  then show "verifyIdToken e t = Inr r"
    by (auto simp: verifyIdToken_def getProperty_own)
qed

lemma verifySessionCookie_Inr:
  "verifySessionCookie e config t = Inr r \<longleftrightarrow>
    (\<exists>keys header cert key.
       io_get e publicKeysUrl = Inr keys \<and>
       jose_decodeProtectedHeader e t = Inr header \<and>
       map_of keys (propertyKey (kid header)) = Some (JStr cert) \<and> cert \<noteq> [] \<and>
       jose_parseX509 e cert = Inr key \<and>
       jwtVerify e t key (sessionOptions config) = Inr r)"
proof
  assume "verifySessionCookie e config t = Inr r"
  then show "\<exists>keys header cert key.
       io_get e publicKeysUrl = Inr keys \<and>
       jose_decodeProtectedHeader e t = Inr header \<and>
       map_of keys (propertyKey (kid header)) = Some (JStr cert) \<and> cert \<noteq> [] \<and>
       jose_parseX509 e cert = Inr key \<and>
       jwtVerify e t key (sessionOptions config) = Inr r"
    by (auto simp: verifySessionCookie_def importX509_Inr getProperty_string getProperty_own
          split: sum.splits if_splits)
next
  assume "\<exists>keys header cert key.
       io_get e publicKeysUrl = Inr keys \<and>
       jose_decodeProtectedHeader e t = Inr header \<and>
       map_of keys (propertyKey (kid header)) = Some (JStr cert) \<and> cert \<noteq> [] \<and>
       jose_parseX509 e cert = Inr key \<and>
       jwtVerify e t key (sessionOptions config) = Inr r"
  then show "verifySessionCookie e config t = Inr r"
    by (auto simp: verifySessionCookie_def getProperty_own)
qed

lemma jwtVerify_Inr:
  "jwtVerify e t key opts = Inr r \<longleftrightarrow>
     (\<exists>p. jose_compactVerify e key t = Inr (JObj p) \<and> r = JObj p \<and> claimsValid opts (now e) p)"
  by (auto simp: jwtVerify_def jwtClaimsSet_Inr split: sum.splits)

lemma verifyIdToken_selected:
  assumes "io_get e securetokenCertsUrl = Inr keys"
    and "jose_decodeProtectedHeader e t = Inr header"
    and "importX509 e (getProperty keys (propertyKey (kid header))) = Inr key"
  shows "verifyIdToken e t = jwtVerify e t key noOptions"
  using assms by (simp add: verifyIdToken_def)

lemma verifySessionCookie_selected:
  assumes "io_get e publicKeysUrl = Inr keys"
    and "jose_decodeProtectedHeader e t = Inr header"
    and "\<not> falsyLookup (getProperty keys (propertyKey (kid header)))"
    and "importX509 e (getProperty keys (propertyKey (kid header))) = Inr key"
  shows "verifySessionCookie e config t = jwtVerify e t key (sessionOptions config)"
  using assms by (simp add: verifySessionCookie_def)

lemma importX509_compactVerify_update [simp]:
  "importX509 (e\<lparr>jose_compactVerify := f\<rparr>) v = importX509 e v"
  by (cases "(e, v)" rule: importX509.cases) auto

lemma jwtVerify_other_keys:
  "f key t = jose_compactVerify e key t \<Longrightarrow>
   jwtVerify (e\<lparr>jose_compactVerify := f\<rparr>) t key opts = jwtVerify e t key opts"
  by (simp add: jwtVerify_def split: sum.splits)

lemma verifyIdToken_other_keys:
  assumes "io_get e securetokenCertsUrl = Inr keys"
    and "jose_decodeProtectedHeader e t = Inr header"
    and "importX509 e (getProperty keys (propertyKey (kid header))) = Inr key"
    and "f key t = jose_compactVerify e key t"
  shows "verifyIdToken (e\<lparr>jose_compactVerify := f\<rparr>) t = verifyIdToken e t"
  using assms by (simp add: verifyIdToken_def jwtVerify_other_keys)

lemma verifySessionCookie_other_keys:
  assumes "io_get e publicKeysUrl = Inr keys"
    and "jose_decodeProtectedHeader e t = Inr header"
    and "importX509 e (getProperty keys (propertyKey (kid header))) = Inr key"
    and "f key t = jose_compactVerify e key t"
  shows "verifySessionCookie (e\<lparr>jose_compactVerify := f\<rparr>) config t = verifySessionCookie e config t"
  using assms by (simp add: verifySessionCookie_def jwtVerify_other_keys)

lemma jwtVerify_signed:
  "jwtVerify e t key opts = Inr r \<Longrightarrow> \<exists>pl. jose_compactVerify e key t = Inr pl"
  by (auto simp: jwtVerify_def split: sum.splits)

lemmas demo_defs = demoEnv_def demoKeys_def demoConfig_def emptyProjectConfig_def
  sessionPayload_def idTokenPayload_def otherProjectPayload_def expiredPayload_def
  notYetValidPayload_def otherAudiencePayload_def noProjectPayload_def textExpiryPayload_def
  noServer_def emptyWorld_def cachedWorld_def replyServer_def demoServer_def

lemmas check_defs = jwtVerify_def jwtClaimsSet_def missing_def issuerOk_def audienceOk_def
  iatOk_def claim_def sessionOptions_def noOptions_def

lemma noOptions_valid: "claimsValid noOptions t p \<longleftrightarrow> timeClaimsValid t p"
  by (simp add: claimsValid_def noOptions_def missing_def issuerOk_def audienceOk_def
        timeClaimsValid_def iatOk_iff notBefore_iff notExpired_iff)

lemma claim_string: "claim p name = JStr i \<longleftrightarrow> map_of p name = Some (JStr i)"
  by (simp add: claim_def split: option.splits)

lemma sessionOptions_valid:
  assumes "projectId config \<noteq> []"
  shows "claimsValid (sessionOptions config) t p \<longleftrightarrow> sessionClaimsValid config t p"
  using assms namesAudience_present [of "projectId config" "map_of p ''aud''"]
  by (auto simp: claimsValid_def sessionOptions_def missing_def issuerOk_def audienceOk_def
        sessionClaimsValid_def timeClaimsValid_def iatOk_iff notBefore_iff notExpired_iff
        checkAudiencePresence_iff claim_string)

lemma sessionClaimsValid_accepted:
  "sessionClaimsValid config t p \<Longrightarrow> claimsValid (sessionOptions config) t p"
  using namesAudience_present [of "projectId config" "map_of p ''aud''"]
  by (auto simp: claimsValid_def sessionOptions_def missing_def issuerOk_def audienceOk_def
        sessionClaimsValid_def timeClaimsValid_def iatOk_iff notBefore_iff notExpired_iff
        checkAudiencePresence_iff claim_string)

lemma verifySessionCookie_missing_key:
  assumes "io_get e publicKeysUrl = Inr keys"
    and "jose_decodeProtectedHeader e c = Inr header"
    and "map_of keys (propertyKey (kid header)) = None"
    and "propertyKey (kid header) \<notin> set objectPrototypeNames"
  shows "verifySessionCookie e config c = Inl (Error (JStr ''Cannot find public key''))"
  using assms by (simp add: verifySessionCookie_def getProperty_def)

lemma verifyIdToken_missing_key:
  assumes "io_get e securetokenCertsUrl = Inr keys"
    and "jose_decodeProtectedHeader e t = Inr header"
    and "map_of keys (propertyKey (kid header)) = None"
  shows "verifyIdToken e t = Inl TypeError"
  using assms by (simp add: verifyIdToken_def getProperty_def)

lemma verifyIdToken_by_kid:
  assumes "io_get e securetokenCertsUrl = Inr keys"
    and "jose_decodeProtectedHeader e t = Inr header"
    and "kid header = Some k" and "map_of keys k = Some (JStr cert)"
    and "jose_parseX509 e cert = Inr key"
  shows "verifyIdToken e t =
     (case jose_compactVerify e key t of
        Inl err \<Rightarrow> Inl err
      | Inr pl \<Rightarrow> jwtClaimsSet noOptions (now e) pl)"
  using assms by (simp add: verifyIdToken_def getProperty_own jwtVerify_def)

lemma verifySessionCookie_by_kid:
  assumes "io_get e publicKeysUrl = Inr keys"
    and "jose_decodeProtectedHeader e t = Inr header"
    and "kid header = Some k" and "map_of keys k = Some (JStr cert)" and "cert \<noteq> []"
    and "jose_parseX509 e cert = Inr key"
  shows "verifySessionCookie e config t =
     (case jose_compactVerify e key t of
        Inl err \<Rightarrow> Inl err
      | Inr pl \<Rightarrow> jwtClaimsSet (sessionOptions config) (now e) pl)"
  using assms by (simp add: verifySessionCookie_def getProperty_own jwtVerify_def)

lemma verifyIdToken_fetch_failed:
  "io_get e securetokenCertsUrl = Inl err \<Longrightarrow> verifyIdToken e t = Inl err"
  by (simp add: verifyIdToken_def)

lemma verifySessionCookie_fetch_failed:
  "io_get e publicKeysUrl = Inl err \<Longrightarrow> verifySessionCookie e config t = Inl err"
  by (simp add: verifySessionCookie_def)

lemma verifyIdToken_decode_failed:
  "io_get e securetokenCertsUrl = Inr keys \<Longrightarrow> jose_decodeProtectedHeader e t = Inl err \<Longrightarrow>
   verifyIdToken e t = Inl err"
  by (simp add: verifyIdToken_def)

lemma verifySessionCookie_decode_failed:
  "io_get e publicKeysUrl = Inr keys \<Longrightarrow> jose_decodeProtectedHeader e t = Inl err \<Longrightarrow>
   verifySessionCookie e config t = Inl err"
  by (simp add: verifySessionCookie_def)

lemma importX509_not_string:
  "\<forall>cert. v \<noteq> Value (JStr cert) \<Longrightarrow> importX509 e v = Inl TypeError"
  by (cases "(e, v)" rule: importX509.cases) auto

lemma getProperty_absent:
  "map_of keys k = None \<Longrightarrow> getProperty keys k \<noteq> Value (JStr cert)"
  by (simp add: getProperty_def)

lemma verifyIdToken_no_certificate:
  assumes "io_get e securetokenCertsUrl = Inr keys"
    and "jose_decodeProtectedHeader e t = Inr header"
    and "kid header = Some k" and "map_of keys k = None"
  shows "verifyIdToken e t = Inl TypeError"
  using assms importX509_not_string [of "getProperty keys k" e] getProperty_absent [of keys k]
  by (simp add: verifyIdToken_def)

lemma verifySessionCookie_no_certificate:
  assumes "io_get e publicKeysUrl = Inr keys"
    and "jose_decodeProtectedHeader e t = Inr header"
    and "kid header = Some k" and "map_of keys k = None"
  shows "isl (verifySessionCookie e config t)"
  using assms importX509_not_string [of "getProperty keys k" e] getProperty_absent [of keys k]
  by (simp add: verifySessionCookie_def)

lemma absentOrNumber_iff:
  "absentOrNumber v \<longleftrightarrow> v = None \<or> v = Some JUndefined \<or> (\<exists>x. v = Some (JNum x))"
  by (cases v rule: absentOrNumber.cases) simp_all

lemma absentOrReached_iff:
  "absentOrReached t v \<longleftrightarrow>
     v = None \<or> v = Some JUndefined \<or> (\<exists>x. v = Some (JNum x) \<and> x \<le> t)"
  by (cases "(t, v)" rule: absentOrReached.cases) simp_all

lemma absentOrAhead_iff:
  "absentOrAhead t v \<longleftrightarrow>
     v = None \<or> v = Some JUndefined \<or> (\<exists>x. v = Some (JNum x) \<and> t < x)"
  by (cases "(t, v)" rule: absentOrAhead.cases) simp_all

lemma namesAudience_iff:
  "namesAudience a v \<longleftrightarrow> v = Some (JStr a) \<or> (\<exists>xs. v = Some (JArr xs) \<and> JStr a \<in> set xs)"
  by (cases "(a, v)" rule: namesAudience.cases) auto

lemma reached_iff: "reached t v \<longleftrightarrow> (\<exists>x. v = Some (JNum x) \<and> x \<le> t)"
  by (cases "(t, v)" rule: reached.cases) simp_all

lemma timeClaimsValid_iff:
  "timeClaimsValid t p \<longleftrightarrow>
     (map_of p ''iat'' = None \<or> map_of p ''iat'' = Some JUndefined \<or>
      (\<exists>x. map_of p ''iat'' = Some (JNum x))) \<and>
     (map_of p ''nbf'' = None \<or> map_of p ''nbf'' = Some JUndefined \<or>
      (\<exists>x. map_of p ''nbf'' = Some (JNum x) \<and> x \<le> t)) \<and>
     (map_of p ''exp'' = None \<or> map_of p ''exp'' = Some JUndefined \<or>
      (\<exists>x. map_of p ''exp'' = Some (JNum x) \<and> t < x))"
  by (simp add: timeClaimsValid_def absentOrNumber_iff absentOrReached_iff absentOrAhead_iff)

lemma expired_iff: "expired t p \<longleftrightarrow> (\<exists>x. map_of p ''exp'' = Some (JNum x) \<and> x \<le> t)"
  by (simp add: expired_def reached_iff)

lemma idToken_valid_verifies:
  assumes "io_get e securetokenCertsUrl = Inr keys"
    and "jose_decodeProtectedHeader e t = Inr header"
    and "kid header = Some i" and "map_of keys i = Some (JStr cert)"
    and "jose_parseX509 e cert = Inr key"
    and "jose_compactVerify e key t = Inr (JObj p)"
    and "map_of p ''iat'' = None \<or> map_of p ''iat'' = Some JUndefined \<or>
      (\<exists>x. map_of p ''iat'' = Some (JNum x))"
    and "map_of p ''nbf'' = None \<or> map_of p ''nbf'' = Some JUndefined \<or>
      (\<exists>x. map_of p ''nbf'' = Some (JNum x) \<and> x \<le> now e)"
    and "map_of p ''exp'' = None \<or> map_of p ''exp'' = Some JUndefined \<or>
      (\<exists>x. map_of p ''exp'' = Some (JNum x) \<and> now e < x)"
  shows "FirebaseAuth_verifyIdToken e config t customData = Inr (JObj p)"
proof -
  have "timeClaimsValid (now e) p"
    unfolding timeClaimsValid_iff using assms(7-9) by (intro conjI)
  then have "jwtClaimsSet noOptions (now e) (JObj p) = Inr (JObj p)"
    by (simp add: jwtClaimsSet_valid noOptions_valid)
  with verifyIdToken_by_kid [OF assms(1-5)] assms(6) show ?thesis
    by (simp add: FirebaseAuth_verifyIdToken_def)
qed

lemma idToken_tampered_rejected:
  assumes "io_get e securetokenCertsUrl = Inr keys"
    and "jose_decodeProtectedHeader e t = Inr header"
    and "kid header = Some i" and "map_of keys i = Some (JStr cert)"
    and "jose_parseX509 e cert = Inr key"
    and "jose_compactVerify e key t = Inl err"
  shows "FirebaseAuth_verifyIdToken e config t customData = Inl err"
  using verifyIdToken_by_kid [OF assms(1-5)] assms(6)
  by (simp add: FirebaseAuth_verifyIdToken_def)

lemma idToken_expired_rejected:
  assumes "io_get e securetokenCertsUrl = Inr keys"
    and "jose_decodeProtectedHeader e t = Inr header"
    and "kid header = Some i" and "map_of keys i = Some (JStr cert)"
    and "jose_parseX509 e cert = Inr key"
    and "jose_compactVerify e key t = Inr (JObj p)"
    and "\<exists>x. map_of p ''exp'' = Some (JNum x) \<and> x \<le> now e"
  shows "isl (FirebaseAuth_verifyIdToken e config t customData)"
  using verifyIdToken_by_kid [OF assms(1-5)] assms(6)
    jwtClaimsSet_expired [of "now e" p noOptions] assms(7)
  by (simp add: FirebaseAuth_verifyIdToken_def expired_iff)

lemma cookie_valid_verifies:
  assumes "io_get e publicKeysUrl = Inr keys"
    and "jose_decodeProtectedHeader e t = Inr header"
    and "kid header = Some i" and "map_of keys i = Some (JStr cert)" and "cert \<noteq> []"
    and "jose_parseX509 e cert = Inr key"
    and "jose_compactVerify e key t = Inr (JObj p)"
    and "map_of p ''iss'' =
      Some (JStr (''https://session.firebase.google.com/'' @ projectId config))"
    and "map_of p ''aud'' = Some (JStr (projectId config)) \<or>
      (\<exists>xs. map_of p ''aud'' = Some (JArr xs) \<and> JStr (projectId config) \<in> set xs)"
    and "map_of p ''iat'' = None \<or> map_of p ''iat'' = Some JUndefined \<or>
      (\<exists>x. map_of p ''iat'' = Some (JNum x))"
    and "map_of p ''nbf'' = None \<or> map_of p ''nbf'' = Some JUndefined \<or>
      (\<exists>x. map_of p ''nbf'' = Some (JNum x) \<and> x \<le> now e)"
    and "map_of p ''exp'' = None \<or> map_of p ''exp'' = Some JUndefined \<or>
      (\<exists>x. map_of p ''exp'' = Some (JNum x) \<and> now e < x)"
  shows "verifySessionCookie e config t = Inr (JObj p)"
proof -
  have "timeClaimsValid (now e) p"
    unfolding timeClaimsValid_iff using assms(10-12) by (intro conjI)
  with assms(8,9) have "sessionClaimsValid config (now e) p"
    by (simp add: sessionClaimsValid_def namesAudience_iff)
  then have "jwtClaimsSet (sessionOptions config) (now e) (JObj p) = Inr (JObj p)"
    by (simp add: jwtClaimsSet_valid sessionClaimsValid_accepted)
  with verifySessionCookie_by_kid [OF assms(1-6)] assms(7) show ?thesis by simp
qed

lemma cookie_tampered_rejected:
  assumes "io_get e publicKeysUrl = Inr keys"
    and "jose_decodeProtectedHeader e t = Inr header"
    and "kid header = Some i" and "map_of keys i = Some (JStr cert)" and "cert \<noteq> []"
    and "jose_parseX509 e cert = Inr key"
    and "jose_compactVerify e key t = Inl err"
  shows "verifySessionCookie e config t = Inl err"
  using verifySessionCookie_by_kid [OF assms(1-6)] assms(7) by simp

lemma cookie_expired_rejected:
  assumes "io_get e publicKeysUrl = Inr keys"
    and "jose_decodeProtectedHeader e t = Inr header"
    and "kid header = Some i" and "map_of keys i = Some (JStr cert)" and "cert \<noteq> []"
    and "jose_parseX509 e cert = Inr key"
    and "jose_compactVerify e key t = Inr (JObj p)"
    and "\<exists>x. map_of p ''exp'' = Some (JNum x) \<and> x \<le> now e"
  shows "isl (verifySessionCookie e config t)"
  using verifySessionCookie_by_kid [OF assms(1-6)] assms(7)
    jwtClaimsSet_expired [of "now e" p "sessionOptions config"] assms(8)
  by (simp add: expired_iff)

section \<open>Requests: general facts\<close>







lemma errorOf_own_toString:
  "map_of obj ''toString'' = Some v \<Longrightarrow> errorOf e (JObj obj) = TypeError"
  by (simp add: errorOf_def)

lemma axios_post_eq:
  "axios_post e r w =
     (case io_post e (sent w) r of
        Inl err \<Rightarrow> Inl err
      | Inr res \<Rightarrow> if ok res then Inr res else Inl (HttpRejected (status res) (data res)),
      posted r w)"
  by (simp add: axios_post_def posted_def)

lemma sendFirebaseAuthPostRequest_eq:
  "sendFirebaseAuthPostRequest e config formData endpoint w =
     (surfaces e (io_post e (sent w) (accountsRequest config endpoint formData)) Inr,
      posted (accountsRequest config endpoint formData) w)"
  by (auto simp: sendFirebaseAuthPostRequest_def axios_post_eq accountsRequest_def surfaces_def
        ok_def split: sum.splits)

lemma send_200:
  "io_post e (sent w) (accountsRequest config endpoint formData) = Inr res \<Longrightarrow>
   status res = 200 \<Longrightarrow>
   sendFirebaseAuthPostRequest e config formData endpoint w =
     (Inr (data res), posted (accountsRequest config endpoint formData) w)"
  by (simp add: sendFirebaseAuthPostRequest_eq surfaces_def)

lemma send_Inr:
  "sendFirebaseAuthPostRequest e config formData endpoint w = (Inr d, w') \<longleftrightarrow>
     (\<exists>res. io_post e (sent w) (accountsRequest config endpoint formData) = Inr res \<and>
        status res = 200 \<and> d = data res \<and>
        w' = posted (accountsRequest config endpoint formData) w)"
  by (auto simp: sendFirebaseAuthPostRequest_eq surfaces_def split: sum.splits if_splits)

lemma sent_posted [simp]: "sent (posted r w) = sent w @ [r]"
  by (simp add: posted_def)

lemma lookupUser_200:
  "io_post e (sent w) (accountsRequest config ''lookup'' [(''idToken'', idToken)]) = Inr res \<Longrightarrow>
   status res = 200 \<Longrightarrow>
   lookupUser e config idToken w =
     (case getMember (data res) Users of Inl err \<Rightarrow> Inl err | Inr users \<Rightarrow> getFirst users,
      posted (accountsRequest config ''lookup'' [(''idToken'', idToken)]) w)"
  by (simp add: lookupUser_def send_200 split: sum.splits)

lemma signIn_eq:
  "signInWithEmailAndPassword e config email password w =
     (case sendFirebaseAuthPostRequest e config (credentials email password)
             ''signInWithPassword'' w of
        (Inl err, w') \<Rightarrow> (Inl err, w')
      | (Inr token, w') \<Rightarrow>
          (case getMember token IdToken of
             Inl err \<Rightarrow> (Inl err, w')
           | Inr idToken \<Rightarrow>
               (case lookupUser e config idToken w' of
                  (Inl err, w'') \<Rightarrow> (Inl err, w'')
                | (Inr user, w'') \<Rightarrow> (Inr (token, user), w''))))"
  by (simp add: signInWithEmailAndPassword_def credentials_def)

lemma signUp_eq:
  "signUpWithEmailAndPassword e config email password w =
     (case sendFirebaseAuthPostRequest e config (credentials email password) ''signUp'' w of
        (Inl err, w') \<Rightarrow> (Inl err, w')
      | (Inr token, w') \<Rightarrow>
          (case getMember token IdToken of
             Inl err \<Rightarrow> (Inl err, w')
           | Inr idToken \<Rightarrow>
               (case lookupUser e config idToken w' of
                  (Inl err, w'') \<Rightarrow> (Inl err, w'')
                | (Inr user, w'') \<Rightarrow> (Inr (token, user), w''))))"
  by (simp add: signUpWithEmailAndPassword_def credentials_def)

lemma signIn_Inr:
  "signInWithEmailAndPassword e config email password w = (Inr (token, user), w'') \<longleftrightarrow>
     (\<exists>res idToken.
        io_post e (sent w)
          (accountsRequest config ''signInWithPassword'' (credentials email password)) = Inr res \<and>
        status res = 200 \<and> token = data res \<and>
        getMember token IdToken = Inr idToken \<and>
        lookupUser e config idToken
          (posted (accountsRequest config ''signInWithPassword'' (credentials email password)) w)
          = (Inr user, w''))"
proof
  assume "signInWithEmailAndPassword e config email password w = (Inr (token, user), w'')"
  then show "\<exists>res idToken.
        io_post e (sent w)
          (accountsRequest config ''signInWithPassword'' (credentials email password)) = Inr res \<and>
        status res = 200 \<and> token = data res \<and>
        getMember token IdToken = Inr idToken \<and>
        lookupUser e config idToken
          (posted (accountsRequest config ''signInWithPassword'' (credentials email password)) w)
          = (Inr user, w'')"
    unfolding signIn_eq by (auto simp: send_Inr split: prod.splits sum.splits)
next
  assume "\<exists>res idToken.
        io_post e (sent w)
          (accountsRequest config ''signInWithPassword'' (credentials email password)) = Inr res \<and>
        status res = 200 \<and> token = data res \<and>
        getMember token IdToken = Inr idToken \<and>
        lookupUser e config idToken
          (posted (accountsRequest config ''signInWithPassword'' (credentials email password)) w)
          = (Inr user, w'')"
  then show "signInWithEmailAndPassword e config email password w = (Inr (token, user), w'')"
    unfolding signIn_eq by (auto simp: send_200)
qed

lemma signUp_Inr:
  "signUpWithEmailAndPassword e config email password w = (Inr (token, user), w'') \<longleftrightarrow>
     (\<exists>res idToken.
        io_post e (sent w)
          (accountsRequest config ''signUp'' (credentials email password)) = Inr res \<and>
        status res = 200 \<and> token = data res \<and>
        getMember token IdToken = Inr idToken \<and>
        lookupUser e config idToken
          (posted (accountsRequest config ''signUp'' (credentials email password)) w)
          = (Inr user, w''))"
proof
  assume "signUpWithEmailAndPassword e config email password w = (Inr (token, user), w'')"
  then show "\<exists>res idToken.
        io_post e (sent w)
          (accountsRequest config ''signUp'' (credentials email password)) = Inr res \<and>
        status res = 200 \<and> token = data res \<and>
        getMember token IdToken = Inr idToken \<and>
        lookupUser e config idToken
          (posted (accountsRequest config ''signUp'' (credentials email password)) w)
          = (Inr user, w'')"
    unfolding signUp_eq by (auto simp: send_Inr split: prod.splits sum.splits)
next
  assume "\<exists>res idToken.
        io_post e (sent w)
          (accountsRequest config ''signUp'' (credentials email password)) = Inr res \<and>
        status res = 200 \<and> token = data res \<and>
        getMember token IdToken = Inr idToken \<and>
        lookupUser e config idToken
          (posted (accountsRequest config ''signUp'' (credentials email password)) w)
          = (Inr user, w'')"
  then show "signUpWithEmailAndPassword e config email password w = (Inr (token, user), w'')"
    unfolding signUp_eq by (auto simp: send_200)
qed

lemma signIn_first_request:
  "\<exists>rest. sent (snd (signInWithEmailAndPassword e config email password w)) =
     sent w @ accountsRequest config ''signInWithPassword'' (credentials email password) # rest"
  unfolding signIn_eq
  by (auto simp: sendFirebaseAuthPostRequest_eq lookupUser_def split: prod.splits sum.splits)

lemma signUp_first_request:
  "\<exists>rest. sent (snd (signUpWithEmailAndPassword e config email password w)) =
     sent w @ accountsRequest config ''signUp'' (credentials email password) # rest"
  unfolding signUp_eq
  by (auto simp: sendFirebaseAuthPostRequest_eq lookupUser_def split: prod.splits sum.splits)

lemma cache_get_absent: "kv w c key = None \<Longrightarrow> cache_get e c key w = JNull"
  by (simp add: cache_get_def)

lemma cache_get_expired:
  "kv w c key = Some (v, expires) \<Longrightarrow> expires \<le> now e \<Longrightarrow> cache_get e c key w = JNull"
  by (simp add: cache_get_def)

lemma cache_get_fresh:
  "kv w c key = Some (v, expires) \<Longrightarrow> now e < expires \<Longrightarrow> cache_get e c key w = v"
  by (simp add: cache_get_def)

lemma kv_cache_put: "kv (cache_put e c key v ttl w) c key = Some (v, now e + ttl)"
  by (simp add: cache_put_def)

lemma sent_cache_put [simp]: "sent (cache_put e c key v ttl w) = sent w"
  by (simp add: cache_put_def)

lemma cache_get_put: "0 < ttl \<Longrightarrow> cache_get e c key (cache_put e c key v ttl w) = v"
  by (simp add: cache_get_def cache_put_def)

lemma withCache_none: "cache config = None \<Longrightarrow> withCache e config action key ttl w = action w"
  by (simp add: withCache_def)

lemma withCache_hit:
  "cache config = Some c \<Longrightarrow> \<not> falsy (cache_get e c key w) \<Longrightarrow>
   withCache e config action key ttl w = (Inr (cache_get e c key w), w)"
  by (simp add: withCache_def)

lemma withCache_miss:
  "cache config = Some c \<Longrightarrow> falsy (cache_get e c key w) \<Longrightarrow> action w = (Inr v, w') \<Longrightarrow>
   withCache e config action key ttl w = (Inr v, cache_put e c key v ttl w')"
  by (simp add: withCache_def)

lemma withCache_miss_error:
  "cache config = Some c \<Longrightarrow> falsy (cache_get e c key w) \<Longrightarrow> action w = (Inl err, w') \<Longrightarrow>
   withCache e config action key ttl w = (Inl err, w')"
  by (simp add: withCache_def)

lemma demo_getAuthToken:
  "getAuthToken (demoEnv None JNull demoServer) ''sa@demo'' ''PRIVATE'' identityScope w =
     (Inr (JStr ''OAUTH''),
      posted \<lparr>url = tokenEndpoint,
              payload = FormBody
                [(''grant_type'', ''urn:ietf:params:oauth:grant-type:jwt-bearer''),
                 (''assertion'', ''assertion'')],
              headers = [(''Content-Type'', ''application/x-www-form-urlencoded'')]\<rparr> w)"
  by (simp add: getAuthToken_def demo_defs axios_post_eq ok_def claim_def)

lemma demo_lookupUser:
  "fst (lookupUser (demoEnv None JNull demoServer) (demoConfig None) (JStr ''ID1'') w)
     = Inr (JObj [(''email'', JStr ''a@b.c'')])"
  by (simp add: lookupUser_200 [where res = "\<lparr>status = 200,
          data = JObj [(''users'', JArr [JObj [(''email'', JStr ''a@b.c'')]])]\<rparr>"]
        demo_defs accountsRequest_def credentials_def tokenEndpoint_def BASE_URL_def claim_def)






lemma setCustomUserClaims_with_token:
  assumes "getToken e config w = (Inr token, w1)" and "toStringJS e token = Inr bearer"
  shows "setCustomUserClaims e config uid cl w =
     (surfaces e (io_post e (sent w1)
         (claimsRequest config bearer uid
            (JSON_stringify e (case cl of None \<Rightarrow> [] | Some c \<Rightarrow> c)))) Inr,
      posted (claimsRequest config bearer uid
            (JSON_stringify e (case cl of None \<Rightarrow> [] | Some c \<Rightarrow> c))) w1)"
  using assms
  by (auto simp: setCustomUserClaims_def axios_post_eq claimsRequest_def surfaces_def ok_def
        split: sum.splits)



lemma JSON_stringify_empty: "JSON_stringify e [] = ''{}''"
  by (simp add: JSON_stringify_def)

lemma escapeChar_length: "1 \<le> length (escapeChar c)"
  by (simp add: escapeChar_def)

lemma quoteJSONString_length: "length s \<le> length (quoteJSONString s)"
proof -
  have "length s \<le> length (concat (map escapeChar s))"
  proof (induction s)
    case Nil
    then show ?case by simp
  next
    case (Cons c cs)
    then show ?case using escapeChar_length [of c] by simp
  qed
  then show ?thesis by (simp add: quoteJSONString_def)
qed

lemma bigClaims_length: "1000 < length (JSON_stringify e bigClaims)"
  using quoteJSONString_length [of "replicate 1001 (CHR ''a'')"]
  by (simp add: JSON_stringify_def bigClaims_def)

lemma demo_getToken:
  "getToken (demoEnv None JNull demoServer) (demoConfig None) w =
     (Inr (JStr ''OAUTH''),
      posted \<lparr>url = tokenEndpoint,
              payload = FormBody
                [(''grant_type'', ''urn:ietf:params:oauth:grant-type:jwt-bearer''),
                 (''assertion'', ''assertion'')],
              headers = [(''Content-Type'', ''application/x-www-form-urlencoded'')]\<rparr> w)"
  using demo_getAuthToken [of w]
  by (simp add: getToken_def withCache_none demoConfig_def identityScope_def)

lemma demoServer_claims:
  "io_post (demoEnv None JNull demoServer) history
     (claimsRequest (demoConfig None) bearer uid attributes)
     = Inr \<lparr>status = 200, data = JObj []\<rparr>"
  by (simp add: demo_defs claimsRequest_def credentials_def tokenEndpoint_def BASE_URL_def)











section \<open>The claims\<close>

text \<open>
  C1. The claim: for every ID token, \<open>verifyIdToken\<close> verifies the signature and checks
  the claims issuer, audience and expiry, and fulfils the promise only if all of these
  pass. The code passes no options to \<open>jwtVerify\<close>, so neither the issuer nor the
  audience is compared with anything (see \<open>noOptions_valid\<close>), while
  \<open>verifySessionCookie\<close> passes both. Evaluated here: an instance configured for the
  project \<open>demo\<close> fulfils the promise for a signed token issued by and for the project
  \<open>other\<close>, and for a signed token with no issuer and no audience at all.
\<close>

theorem verifyIdToken_accepts_other_project:
  "claim otherProjectPayload ''iss'' = JStr ''https://securetoken.google.com/other'' \<and>
   claim otherProjectPayload ''aud'' = JStr ''other'' \<and>
   projectId (demoConfig None) = ''demo'' \<and>
   verifyIdToken (demoEnv (Some ''key1'') (JObj otherProjectPayload) noServer) ''signed''
     = Inr (JObj otherProjectPayload) \<and>
   FirebaseAuth_verifyIdToken (demoEnv (Some ''key1'') (JObj otherProjectPayload) noServer)
     (demoConfig None) ''signed'' [] = Inr (JObj otherProjectPayload) \<and>
   verifyIdToken (demoEnv (Some ''key1'') (JObj [(''exp'', JNum 2000)]) noServer) ''signed''
     = Inr (JObj [(''exp'', JNum 2000)])"
  by (simp add: FirebaseAuth_verifyIdToken_def verifyIdToken_def demo_defs getProperty_def
        check_defs)

text \<open>
  C2. For every token given to \<open>verifyIdToken\<close> or \<open>verifySessionCookie\<close>, the keys are
  fetched over HTTP and the certificate is the one stored in the fetched set under the
  \<open>kid\<close> of the token's decoded protected header; the signature is verified against the
  key of that certificate and no other. For each operation:
  \<^item> a call that resolves has found a certificate string under the header's key in the
    fetched set, imported it and verified the signature against the imported key;
  \<^item> the outcome of a call that selected a key is the same whatever the signature check
    would answer for any other key or token;
  \<^item> a failure to fetch the keys is the outcome of the call, and so is a failure to
    decode the header;
  \<^item> when the fetched set holds a certificate string under the \<open>kid\<close> of the header and
    the certificate imports to a key, the outcome of the call is the signature check of
    the token against that key, followed by the claim validation of the payload: a
    failed check is the failure of the call;
  \<^item> when the fetched set holds nothing under the \<open>kid\<close>, the call is rejected.
  For \<open>verifySessionCookie\<close> the certificate is not the empty string, which its guard
  takes for a missing key.
\<close>

theorem key_selected_by_kid:
  "(verifyIdToken e t = Inr r \<longrightarrow>
      (\<exists>keys header cert key pl.
         io_get e securetokenCertsUrl = Inr keys \<and>
         jose_decodeProtectedHeader e t = Inr header \<and>
         map_of keys (propertyKey (kid header)) = Some (JStr cert) \<and>
         jose_parseX509 e cert = Inr key \<and>
         jose_compactVerify e key t = Inr pl)) \<and>
   (verifySessionCookie e config t = Inr r' \<longrightarrow>
      (\<exists>keys header cert key pl.
         io_get e publicKeysUrl = Inr keys \<and>
         jose_decodeProtectedHeader e t = Inr header \<and>
         map_of keys (propertyKey (kid header)) = Some (JStr cert) \<and>
         jose_parseX509 e cert = Inr key \<and>
         jose_compactVerify e key t = Inr pl)) \<and>
   (io_get e securetokenCertsUrl = Inr ks \<and> jose_decodeProtectedHeader e t = Inr h \<and>
    importX509 e (getProperty ks (propertyKey (kid h))) = Inr k \<and>
    f k t = jose_compactVerify e k t \<longrightarrow>
      verifyIdToken (e\<lparr>jose_compactVerify := f\<rparr>) t = verifyIdToken e t) \<and>
   (io_get e publicKeysUrl = Inr ks' \<and> jose_decodeProtectedHeader e t = Inr h' \<and>
    importX509 e (getProperty ks' (propertyKey (kid h'))) = Inr k' \<and>
    f' k' t = jose_compactVerify e k' t \<longrightarrow>
      verifySessionCookie (e\<lparr>jose_compactVerify := f'\<rparr>) config t =
      verifySessionCookie e config t) \<and>
   (io_get e securetokenCertsUrl = Inl err \<longrightarrow> verifyIdToken e t = Inl err) \<and>
   (io_get e publicKeysUrl = Inl err \<longrightarrow> verifySessionCookie e config t = Inl err) \<and>
   (io_get e securetokenCertsUrl = Inr keys \<and> jose_decodeProtectedHeader e t = Inl err \<longrightarrow>
      verifyIdToken e t = Inl err) \<and>
   (io_get e publicKeysUrl = Inr keys \<and> jose_decodeProtectedHeader e t = Inl err \<longrightarrow>
      verifySessionCookie e config t = Inl err) \<and>
   (io_get e securetokenCertsUrl = Inr keys \<and> jose_decodeProtectedHeader e t = Inr header \<and>
    kid header = Some i \<and> map_of keys i = Some (JStr cert) \<and>
    jose_parseX509 e cert = Inr key \<longrightarrow>
      verifyIdToken e t =
        (case jose_compactVerify e key t of
           Inl err \<Rightarrow> Inl err
         | Inr pl \<Rightarrow> jwtClaimsSet noOptions (now e) pl)) \<and>
   (io_get e publicKeysUrl = Inr keys \<and> jose_decodeProtectedHeader e t = Inr header \<and>
    kid header = Some i \<and> map_of keys i = Some (JStr cert) \<and> cert \<noteq> [] \<and>
    jose_parseX509 e cert = Inr key \<longrightarrow>
      verifySessionCookie e config t =
        (case jose_compactVerify e key t of
           Inl err \<Rightarrow> Inl err
         | Inr pl \<Rightarrow> jwtClaimsSet (sessionOptions config) (now e) pl)) \<and>
   (io_get e securetokenCertsUrl = Inr keys \<and> jose_decodeProtectedHeader e t = Inr header \<and>
    kid header = Some i \<and> map_of keys i = None \<longrightarrow> isl (verifyIdToken e t)) \<and>
   (io_get e publicKeysUrl = Inr keys \<and> jose_decodeProtectedHeader e t = Inr header \<and>
    kid header = Some i \<and> map_of keys i = None \<longrightarrow>
      isl (verifySessionCookie e config t))"
proof (intro conjI impI; (elim conjE)?)
  assume "verifyIdToken e t = Inr r"
  then show "\<exists>keys header cert key pl.
         io_get e securetokenCertsUrl = Inr keys \<and>
         jose_decodeProtectedHeader e t = Inr header \<and>
         map_of keys (propertyKey (kid header)) = Some (JStr cert) \<and>
         jose_parseX509 e cert = Inr key \<and>
         jose_compactVerify e key t = Inr pl"
    unfolding verifyIdToken_Inr using jwtVerify_signed by blast
next
  assume "verifySessionCookie e config t = Inr r'"
  then show "\<exists>keys header cert key pl.
         io_get e publicKeysUrl = Inr keys \<and>
         jose_decodeProtectedHeader e t = Inr header \<and>
         map_of keys (propertyKey (kid header)) = Some (JStr cert) \<and>
         jose_parseX509 e cert = Inr key \<and>
         jose_compactVerify e key t = Inr pl"
    unfolding verifySessionCookie_Inr using jwtVerify_signed by blast
next
  assume "io_get e securetokenCertsUrl = Inr ks" "jose_decodeProtectedHeader e t = Inr h"
    "importX509 e (getProperty ks (propertyKey (kid h))) = Inr k"
    "f k t = jose_compactVerify e k t"
  then show "verifyIdToken (e\<lparr>jose_compactVerify := f\<rparr>) t = verifyIdToken e t"
    by (rule verifyIdToken_other_keys)
next
  assume "io_get e publicKeysUrl = Inr ks'" "jose_decodeProtectedHeader e t = Inr h'"
    "importX509 e (getProperty ks' (propertyKey (kid h'))) = Inr k'"
    "f' k' t = jose_compactVerify e k' t"
  then show "verifySessionCookie (e\<lparr>jose_compactVerify := f'\<rparr>) config t =
      verifySessionCookie e config t"
    by (rule verifySessionCookie_other_keys)
next
  assume "io_get e securetokenCertsUrl = Inl err"
  then show "verifyIdToken e t = Inl err" by (rule verifyIdToken_fetch_failed)
next
  assume "io_get e publicKeysUrl = Inl err"
  then show "verifySessionCookie e config t = Inl err" by (rule verifySessionCookie_fetch_failed)
next
  assume "io_get e securetokenCertsUrl = Inr keys" "jose_decodeProtectedHeader e t = Inl err"
  then show "verifyIdToken e t = Inl err" by (rule verifyIdToken_decode_failed)
next
  assume "io_get e publicKeysUrl = Inr keys" "jose_decodeProtectedHeader e t = Inl err"
  then show "verifySessionCookie e config t = Inl err"
    by (rule verifySessionCookie_decode_failed)
next
  assume "io_get e securetokenCertsUrl = Inr keys" "jose_decodeProtectedHeader e t = Inr header"
    "kid header = Some i" "map_of keys i = Some (JStr cert)" "jose_parseX509 e cert = Inr key"
  then show "verifyIdToken e t =
        (case jose_compactVerify e key t of
           Inl err \<Rightarrow> Inl err
         | Inr pl \<Rightarrow> jwtClaimsSet noOptions (now e) pl)"
    by (rule verifyIdToken_by_kid)
next
  assume "io_get e publicKeysUrl = Inr keys" "jose_decodeProtectedHeader e t = Inr header"
    "kid header = Some i" "map_of keys i = Some (JStr cert)" "cert \<noteq> []"
    "jose_parseX509 e cert = Inr key"
  then show "verifySessionCookie e config t =
        (case jose_compactVerify e key t of
           Inl err \<Rightarrow> Inl err
         | Inr pl \<Rightarrow> jwtClaimsSet (sessionOptions config) (now e) pl)"
    by (rule verifySessionCookie_by_kid)
next
  assume "io_get e securetokenCertsUrl = Inr keys" "jose_decodeProtectedHeader e t = Inr header"
    "kid header = Some i" "map_of keys i = None"
  then show "isl (verifyIdToken e t)" by (simp add: verifyIdToken_no_certificate)
next
  assume "io_get e publicKeysUrl = Inr keys" "jose_decodeProtectedHeader e t = Inr header"
    "kid header = Some i" "map_of keys i = None"
  then show "isl (verifySessionCookie e config t)" by (rule verifySessionCookie_no_certificate)
qed

theorem key_selected_by_kid_witness:
  "verifyIdToken (demoEnv (Some ''key1'') (JObj idTokenPayload) noServer) ''signed''
     = Inr (JObj idTokenPayload) \<and>
   verifySessionCookie (demoEnv (Some ''key1'') (JObj sessionPayload) noServer)
     (demoConfig None) ''signed'' = Inr (JObj sessionPayload) \<and>
   verifyIdToken (demoEnv (Some ''key1'') (JObj idTokenPayload) noServer) ''forged''
     = Inl JWSSignatureVerificationFailed \<and>
   verifySessionCookie (demoEnv (Some ''key1'') (JObj sessionPayload) noServer)
     (demoConfig None) ''forged'' = Inl JWSSignatureVerificationFailed \<and>
   isl (verifyIdToken (demoEnv (Some ''key2'') (JObj idTokenPayload) noServer) ''signed'') \<and>
   isl (verifySessionCookie (demoEnv (Some ''key2'') (JObj sessionPayload) noServer)
     (demoConfig None) ''signed'') \<and>
   (\<exists>keys header cert key pl.
      io_get (demoEnv (Some ''key1'') (JObj idTokenPayload) noServer) securetokenCertsUrl
        = Inr keys \<and>
      jose_decodeProtectedHeader (demoEnv (Some ''key1'') (JObj idTokenPayload) noServer)
        ''signed'' = Inr header \<and>
      map_of keys (propertyKey (kid header)) = Some (JStr cert) \<and>
      jose_parseX509 (demoEnv (Some ''key1'') (JObj idTokenPayload) noServer) cert
        = Inr key \<and>
      jose_compactVerify (demoEnv (Some ''key1'') (JObj idTokenPayload) noServer) key
        ''signed'' = Inr pl) \<and>
   (\<exists>keys header cert key pl.
      io_get (demoEnv (Some ''key1'') (JObj sessionPayload) noServer) publicKeysUrl
        = Inr keys \<and>
      jose_decodeProtectedHeader (demoEnv (Some ''key1'') (JObj sessionPayload) noServer)
        ''signed'' = Inr header \<and>
      map_of keys (propertyKey (kid header)) = Some (JStr cert) \<and>
      jose_parseX509 (demoEnv (Some ''key1'') (JObj sessionPayload) noServer) cert
        = Inr key \<and>
      jose_compactVerify (demoEnv (Some ''key1'') (JObj sessionPayload) noServer) key
        ''signed'' = Inr pl) \<and>
   verifyIdToken
     ((demoEnv (Some ''key1'') (JObj sessionPayload) noServer)
        \<lparr>jose_compactVerify :=
           (\<lambda>key t. if key = KeyLike ''PK1'' then Inr (JObj sessionPayload) else Inr JNull)\<rparr>)
     ''signed''
     = verifyIdToken (demoEnv (Some ''key1'') (JObj sessionPayload) noServer) ''signed'' \<and>
   verifySessionCookie
     ((demoEnv (Some ''key1'') (JObj sessionPayload) noServer)
        \<lparr>jose_compactVerify :=
           (\<lambda>key t. if key = KeyLike ''PK1'' then Inr (JObj sessionPayload) else Inr JNull)\<rparr>)
     (demoConfig None) ''signed''
     = verifySessionCookie (demoEnv (Some ''key1'') (JObj sessionPayload) noServer)
         (demoConfig None) ''signed''"
proof -
  let ?i = "demoEnv (Some ''key1'') (JObj idTokenPayload) noServer"
  let ?e = "demoEnv (Some ''key1'') (JObj sessionPayload) noServer"
  let ?i2 = "demoEnv (Some ''key2'') (JObj idTokenPayload) noServer"
  let ?e2 = "demoEnv (Some ''key2'') (JObj sessionPayload) noServer"
  let ?h = "\<lparr>kid = Some ''key1''\<rparr>"
  let ?h2 = "\<lparr>kid = Some ''key2''\<rparr>"
  let ?f = "\<lambda>key t. if key = KeyLike ''PK1'' then Inr (JObj sessionPayload) else Inr JNull"
  have sel: "io_get (demoEnv k pl noServer) securetokenCertsUrl = Inr demoKeys"
    "io_get (demoEnv k pl noServer) publicKeysUrl = Inr demoKeys"
    "jose_decodeProtectedHeader (demoEnv k pl noServer) t = Inr \<lparr>kid = k\<rparr>"
    "jose_parseX509 (demoEnv k pl noServer) ''CERT1'' = Inr (KeyLike ''PK1'')"
    "map_of demoKeys ''key1'' = Some (JStr ''CERT1'')" "map_of demoKeys ''key2'' = None"
    "''CERT1'' \<noteq> []" "kid \<lparr>kid = k\<rparr> = k"
    for k pl t by (simp_all add: demo_defs)
  have imp: "importX509 ?e (getProperty demoKeys (propertyKey (kid ?h))) = Inr (KeyLike ''PK1'')"
    "?f (KeyLike ''PK1'') ''signed'' = jose_compactVerify ?e (KeyLike ''PK1'') ''signed''"
    by (simp_all add: demo_defs getProperty_def)
  note a = key_selected_by_kid
    [where e = ?i and t = "''signed''" and keys = demoKeys and header = ?h
      and i = "''key1''" and cert = "''CERT1''" and key = "KeyLike ''PK1''"
      and r = "JObj idTokenPayload"]
  note b = key_selected_by_kid
    [where e = ?e and t = "''signed''" and keys = demoKeys and header = ?h
      and i = "''key1''" and cert = "''CERT1''" and key = "KeyLike ''PK1''"
      and config = "demoConfig None" and r' = "JObj sessionPayload"
      and ks = demoKeys and h = ?h and k = "KeyLike ''PK1''" and f = ?f
      and ks' = demoKeys and h' = ?h and k' = "KeyLike ''PK1''" and f' = ?f]
  note c = key_selected_by_kid
    [where e = ?i and t = "''forged''" and keys = demoKeys and header = ?h
      and i = "''key1''" and cert = "''CERT1''" and key = "KeyLike ''PK1''"]
  note d = key_selected_by_kid
    [where e = ?e and t = "''forged''" and keys = demoKeys and header = ?h
      and i = "''key1''" and cert = "''CERT1''" and key = "KeyLike ''PK1''"
      and config = "demoConfig None"]
  note n = key_selected_by_kid
    [where e = ?i2 and t = "''signed''" and keys = demoKeys and header = ?h2
      and i = "''key2''"]
  note m = key_selected_by_kid
    [where e = ?e2 and t = "''signed''" and keys = demoKeys and header = ?h2
      and i = "''key2''" and config = "demoConfig None"]
  from a [THEN conjunct2, THEN conjunct2, THEN conjunct2, THEN conjunct2, THEN conjunct2, THEN conjunct2, THEN conjunct2, THEN conjunct2, THEN conjunct1] sel have "verifyIdToken ?i ''signed'' =
      (case jose_compactVerify ?i (KeyLike ''PK1'') ''signed'' of
         Inl err \<Rightarrow> Inl err
       | Inr pl \<Rightarrow> jwtClaimsSet noOptions (now ?i) pl)"
    by simp
  then have r1: "verifyIdToken ?i ''signed'' = Inr (JObj idTokenPayload)"
    by (simp add: demo_defs check_defs)
  from b [THEN conjunct2, THEN conjunct2, THEN conjunct2, THEN conjunct2, THEN conjunct2, THEN conjunct2, THEN conjunct2, THEN conjunct2, THEN conjunct2, THEN conjunct1] sel have "verifySessionCookie ?e (demoConfig None) ''signed'' =
      (case jose_compactVerify ?e (KeyLike ''PK1'') ''signed'' of
         Inl err \<Rightarrow> Inl err
       | Inr pl \<Rightarrow> jwtClaimsSet (sessionOptions (demoConfig None)) (now ?e) pl)"
    by simp
  then have r2: "verifySessionCookie ?e (demoConfig None) ''signed'' = Inr (JObj sessionPayload)"
    by (simp add: demo_defs check_defs)
  from c [THEN conjunct2, THEN conjunct2, THEN conjunct2, THEN conjunct2, THEN conjunct2, THEN conjunct2, THEN conjunct2, THEN conjunct2, THEN conjunct1] sel have "verifyIdToken ?i ''forged'' =
      (case jose_compactVerify ?i (KeyLike ''PK1'') ''forged'' of
         Inl err \<Rightarrow> Inl err
       | Inr pl \<Rightarrow> jwtClaimsSet noOptions (now ?i) pl)"
    by simp
  then have r3: "verifyIdToken ?i ''forged'' = Inl JWSSignatureVerificationFailed"
    by (simp add: demo_defs)
  from d [THEN conjunct2, THEN conjunct2, THEN conjunct2, THEN conjunct2, THEN conjunct2, THEN conjunct2, THEN conjunct2, THEN conjunct2, THEN conjunct2, THEN conjunct1] sel have "verifySessionCookie ?e (demoConfig None) ''forged'' =
      (case jose_compactVerify ?e (KeyLike ''PK1'') ''forged'' of
         Inl err \<Rightarrow> Inl err
       | Inr pl \<Rightarrow> jwtClaimsSet (sessionOptions (demoConfig None)) (now ?e) pl)"
    by simp
  then have r4: "verifySessionCookie ?e (demoConfig None) ''forged''
      = Inl JWSSignatureVerificationFailed"
    by (simp add: demo_defs)
  from n [THEN conjunct2, THEN conjunct2, THEN conjunct2, THEN conjunct2, THEN conjunct2, THEN conjunct2, THEN conjunct2, THEN conjunct2, THEN conjunct2, THEN conjunct2, THEN conjunct1] sel have r5: "isl (verifyIdToken ?i2 ''signed'')" by simp
  from m [THEN conjunct2, THEN conjunct2, THEN conjunct2, THEN conjunct2, THEN conjunct2, THEN conjunct2, THEN conjunct2, THEN conjunct2, THEN conjunct2, THEN conjunct2, THEN conjunct2] sel have r6: "isl (verifySessionCookie ?e2 (demoConfig None) ''signed'')" by simp
  from a [THEN conjunct1] r1 have r7: "\<exists>keys header cert key pl.
      io_get ?i securetokenCertsUrl = Inr keys \<and>
      jose_decodeProtectedHeader ?i ''signed'' = Inr header \<and>
      map_of keys (propertyKey (kid header)) = Some (JStr cert) \<and>
      jose_parseX509 ?i cert = Inr key \<and>
      jose_compactVerify ?i key ''signed'' = Inr pl"
    by (rule mp)
  from b [THEN conjunct2, THEN conjunct1] r2 have r8: "\<exists>keys header cert key pl.
      io_get ?e publicKeysUrl = Inr keys \<and>
      jose_decodeProtectedHeader ?e ''signed'' = Inr header \<and>
      map_of keys (propertyKey (kid header)) = Some (JStr cert) \<and>
      jose_parseX509 ?e cert = Inr key \<and>
      jose_compactVerify ?e key ''signed'' = Inr pl"
    by (rule mp)
  from b [THEN conjunct2, THEN conjunct2, THEN conjunct1] sel imp have r9:
    "verifyIdToken (?e\<lparr>jose_compactVerify := ?f\<rparr>) ''signed'' = verifyIdToken ?e ''signed''"
    by simp
  from b [THEN conjunct2, THEN conjunct2, THEN conjunct2, THEN conjunct1] sel imp have r10:
    "verifySessionCookie (?e\<lparr>jose_compactVerify := ?f\<rparr>) (demoConfig None) ''signed''
       = verifySessionCookie ?e (demoConfig None) ''signed''"
    by simp
  from r1 r2 r3 r4 r5 r6 r7 r8 r9 r10 show ?thesis by (intro conjI)
qed

text \<open>
  C3, the divergence. The library compares the audience of a token with the expected
  audience only when the expected audience is a non-empty string. With the empty string
  as configured \<open>projectId\<close>, \<open>verifySessionCookie\<close> resolves for a signed cookie whose
  audience is \<open>other\<close>, which is not the configured \<open>projectId\<close>.
\<close>

theorem verifySessionCookie_empty_project_any_audience:
  "projectId emptyProjectConfig = [] \<and>
   map_of noProjectPayload ''aud'' = Some (JStr ''other'') \<and>
   verifySessionCookie (demoEnv (Some ''key1'') (JObj noProjectPayload) noServer)
     emptyProjectConfig ''signed'' = Inr (JObj noProjectPayload)"
  by (simp add: verifySessionCookie_def demo_defs getProperty_def check_defs)

text \<open>
  C3, as the code has it. For a configured \<open>projectId\<close> that is not the empty string,
  \<open>verifySessionCookie\<close> resolves with the decoded payload exactly when
  \<^item> the fetched key set holds a non-empty certificate string under the \<open>kid\<close> of the
    cookie's decoded protected header, the certificate imports to a key and the
    signature of the cookie verifies against that key, giving a payload that is an
    object;
  \<^item> the \<open>iss\<close> of the payload is the string \<open>https://session.firebase.google.com/\<close>
    followed by the configured \<open>projectId\<close>;
  \<^item> the \<open>aud\<close> of the payload is the configured \<open>projectId\<close>, or an array that
    contains it;
  \<^item> \<open>iat\<close> is absent or a number, \<open>nbf\<close> is absent or a number not after the current
    time, and \<open>exp\<close> is absent or a number after the current time.
\<close>

theorem verifySessionCookie_standard_verification:
  assumes "projectId config \<noteq> []"
  shows "verifySessionCookie e config c = Inr r \<longleftrightarrow>
    (\<exists>keys header cert key p.
       io_get e publicKeysUrl = Inr keys \<and>
       jose_decodeProtectedHeader e c = Inr header \<and>
       map_of keys (propertyKey (kid header)) = Some (JStr cert) \<and> cert \<noteq> [] \<and>
       jose_parseX509 e cert = Inr key \<and>
       jose_compactVerify e key c = Inr (JObj p) \<and>
       map_of p ''iss'' =
         Some (JStr (''https://session.firebase.google.com/'' @ projectId config)) \<and>
       (map_of p ''aud'' = Some (JStr (projectId config)) \<or>
        (\<exists>xs. map_of p ''aud'' = Some (JArr xs) \<and> JStr (projectId config) \<in> set xs)) \<and>
       (map_of p ''iat'' = None \<or> map_of p ''iat'' = Some JUndefined \<or>
        (\<exists>x. map_of p ''iat'' = Some (JNum x))) \<and>
       (map_of p ''nbf'' = None \<or> map_of p ''nbf'' = Some JUndefined \<or>
        (\<exists>x. map_of p ''nbf'' = Some (JNum x) \<and> x \<le> now e)) \<and>
       (map_of p ''exp'' = None \<or> map_of p ''exp'' = Some JUndefined \<or>
        (\<exists>x. map_of p ''exp'' = Some (JNum x) \<and> now e < x)) \<and>
       r = JObj p)"
  unfolding verifySessionCookie_Inr jwtVerify_Inr sessionOptions_valid [OF assms]
    sessionClaimsValid_def timeClaimsValid_def
    absentOrNumber_iff absentOrReached_iff absentOrAhead_iff namesAudience_iff
  by blast

theorem verifySessionCookie_standard_verification_witness:
  "projectId (demoConfig None) \<noteq> [] \<and>
   verifySessionCookie (demoEnv (Some ''key1'') (JObj sessionPayload) noServer) (demoConfig None)
     ''signed'' = Inr (JObj sessionPayload) \<and>
   isl (verifySessionCookie (demoEnv (Some ''key1'') (JObj otherAudiencePayload) noServer)
     (demoConfig None) ''signed'') \<and>
   isl (verifySessionCookie (demoEnv (Some ''key1'') (JObj otherProjectPayload) noServer)
     (demoConfig None) ''signed'') \<and>
   isl (verifySessionCookie (demoEnv (Some ''key1'') (JObj expiredPayload) noServer)
     (demoConfig None) ''signed'') \<and>
   isl (verifySessionCookie (demoEnv (Some ''key1'') (JObj textExpiryPayload) noServer)
     (demoConfig None) ''signed'') \<and>
   isl (verifySessionCookie (demoEnv (Some ''key1'') (JObj sessionPayload) noServer)
     (demoConfig None) ''forged'')"
proof -
  let ?e = "demoEnv (Some ''key1'') (JObj sessionPayload) noServer"
  have ne: "projectId (demoConfig None) \<noteq> []" by (simp add: demoConfig_def)
  note crit = verifySessionCookie_standard_verification [OF ne]
  have rejected: "isl v" if "\<And>r. v \<noteq> Inr r" for v :: "error + jsval"
    using that by (cases v) auto
  have "verifySessionCookie ?e (demoConfig None) ''signed'' = Inr (JObj sessionPayload)"
    unfolding crit
    by (rule exI [of _ demoKeys], rule exI [of _ "\<lparr>kid = Some ''key1''\<rparr>"],
        rule exI [of _ "''CERT1''"], rule exI [of _ "KeyLike ''PK1''"],
        rule exI [of _ sessionPayload]) (simp add: demo_defs)
  moreover have "isl (verifySessionCookie (demoEnv (Some ''key1'') (JObj otherAudiencePayload)
      noServer) (demoConfig None) ''signed'')"
    by (rule rejected, unfold crit) (simp add: demo_defs)
  moreover have "isl (verifySessionCookie (demoEnv (Some ''key1'') (JObj otherProjectPayload)
      noServer) (demoConfig None) ''signed'')"
    by (rule rejected, unfold crit) (simp add: demo_defs)
  moreover have "isl (verifySessionCookie (demoEnv (Some ''key1'') (JObj expiredPayload)
      noServer) (demoConfig None) ''signed'')"
    by (rule rejected, unfold crit) (simp add: demo_defs)
  moreover have "isl (verifySessionCookie (demoEnv (Some ''key1'') (JObj textExpiryPayload)
      noServer) (demoConfig None) ''signed'')"
    by (rule rejected, unfold crit) (simp add: demo_defs)
  moreover have "isl (verifySessionCookie ?e (demoConfig None) ''forged'')"
    by (rule rejected, unfold crit) (simp add: demo_defs)
  ultimately show ?thesis using ne by (intro conjI)
qed

text \<open>
  C4, as stated: a token that is correctly signed by the selected key and not expired
  verifies. It fails for \<open>verifySessionCookie\<close>: a cookie signed by the selected key and
  not expired, but issued for another project, is rejected. It fails for \<open>verifyIdToken\<close>
  too: a token signed by the selected key and not expired, whose not-before time lies in
  the future, is rejected.
\<close>

theorem valid_signed_cookie_of_other_project_rejected:
  "io_get (demoEnv (Some ''key1'') (JObj otherProjectPayload) noServer) publicKeysUrl
     = Inr demoKeys \<and>
   jose_decodeProtectedHeader (demoEnv (Some ''key1'') (JObj otherProjectPayload) noServer)
     ''signed'' = Inr \<lparr>kid = Some ''key1''\<rparr> \<and>
   importX509 (demoEnv (Some ''key1'') (JObj otherProjectPayload) noServer)
     (getProperty demoKeys ''key1'') = Inr (KeyLike ''PK1'') \<and>
   jose_compactVerify (demoEnv (Some ''key1'') (JObj otherProjectPayload) noServer)
     (KeyLike ''PK1'') ''signed'' = Inr (JObj otherProjectPayload) \<and>
   \<not> expired (now (demoEnv (Some ''key1'') (JObj otherProjectPayload) noServer))
     otherProjectPayload \<and>
   verifySessionCookie (demoEnv (Some ''key1'') (JObj otherProjectPayload) noServer)
     (demoConfig None) ''signed'' = Inl (JWTClaimValidationFailed ''iss'' ''check_failed'') \<and>
   jose_compactVerify (demoEnv (Some ''key1'') (JObj notYetValidPayload) noServer)
     (KeyLike ''PK1'') ''signed'' = Inr (JObj notYetValidPayload) \<and>
   \<not> expired (now (demoEnv (Some ''key1'') (JObj notYetValidPayload) noServer))
     notYetValidPayload \<and>
   verifyIdToken (demoEnv (Some ''key1'') (JObj notYetValidPayload) noServer) ''signed''
     = Inl (JWTClaimValidationFailed ''nbf'' ''check_failed'')"
  by (simp add: demo_defs getProperty_def expired_def verifySessionCookie_def
        verifyIdToken_def check_defs)

text \<open>
  C4, amended. For both operations, once the fetched key set holds a certificate under
  the \<open>kid\<close> of the token's header and the certificate imports to a key (for a session
  cookie the certificate is not the empty string):
  \<^item> a valid token verifies, and the promise is fulfilled with the decoded claims. A
    valid token is one whose signature verifies under that key, whose payload is an
    object, in which \<open>iat\<close> is absent or a number, \<open>nbf\<close> is absent or a number not after
    the current time and \<open>exp\<close> is absent or a number after the current time, and which
    was issued by and for the configured project: its \<open>iss\<close> is
    \<open>https://securetoken.google.com/\<close> (ID token) or \<open>https://session.firebase.google.com/\<close>
    (session cookie) followed by the \<open>projectId\<close>, and its \<open>aud\<close> is the \<open>projectId\<close> or
    an array that contains it;
  \<^item> a tampered token, one whose signature does not verify under that key, is rejected
    with the failure of the signature check;
  \<^item> an expired token, one whose \<open>exp\<close> is a number not after the current time, is
    rejected.
\<close>

theorem valid_tokens_verify_invalid_rejected:
  "(io_get e securetokenCertsUrl = Inr keys \<and> jose_decodeProtectedHeader e t = Inr header \<and>
    kid header = Some i \<and> map_of keys i = Some (JStr cert) \<and>
    jose_parseX509 e cert = Inr key \<longrightarrow>
      (jose_compactVerify e key t = Inr (JObj p) \<and>
       map_of p ''iss'' = Some (JStr (''https://securetoken.google.com/'' @ projectId config)) \<and>
       (map_of p ''aud'' = Some (JStr (projectId config)) \<or>
        (\<exists>xs. map_of p ''aud'' = Some (JArr xs) \<and> JStr (projectId config) \<in> set xs)) \<and>
       (map_of p ''iat'' = None \<or> map_of p ''iat'' = Some JUndefined \<or>
        (\<exists>x. map_of p ''iat'' = Some (JNum x))) \<and>
       (map_of p ''nbf'' = None \<or> map_of p ''nbf'' = Some JUndefined \<or>
        (\<exists>x. map_of p ''nbf'' = Some (JNum x) \<and> x \<le> now e)) \<and>
       (map_of p ''exp'' = None \<or> map_of p ''exp'' = Some JUndefined \<or>
        (\<exists>x. map_of p ''exp'' = Some (JNum x) \<and> now e < x)) \<longrightarrow>
         FirebaseAuth_verifyIdToken e config t customData = Inr (JObj p)) \<and>
      (jose_compactVerify e key t = Inl err \<longrightarrow>
         FirebaseAuth_verifyIdToken e config t customData = Inl err) \<and>
      (jose_compactVerify e key t = Inr (JObj p) \<and>
       (\<exists>x. map_of p ''exp'' = Some (JNum x) \<and> x \<le> now e) \<longrightarrow>
         isl (FirebaseAuth_verifyIdToken e config t customData))) \<and>
   (io_get e publicKeysUrl = Inr keys' \<and> jose_decodeProtectedHeader e c = Inr header' \<and>
    kid header' = Some i' \<and> map_of keys' i' = Some (JStr cert') \<and> cert' \<noteq> [] \<and>
    jose_parseX509 e cert' = Inr key' \<longrightarrow>
      (jose_compactVerify e key' c = Inr (JObj p') \<and>
       map_of p' ''iss'' =
         Some (JStr (''https://session.firebase.google.com/'' @ projectId config)) \<and>
       (map_of p' ''aud'' = Some (JStr (projectId config)) \<or>
        (\<exists>xs. map_of p' ''aud'' = Some (JArr xs) \<and> JStr (projectId config) \<in> set xs)) \<and>
       (map_of p' ''iat'' = None \<or> map_of p' ''iat'' = Some JUndefined \<or>
        (\<exists>x. map_of p' ''iat'' = Some (JNum x))) \<and>
       (map_of p' ''nbf'' = None \<or> map_of p' ''nbf'' = Some JUndefined \<or>
        (\<exists>x. map_of p' ''nbf'' = Some (JNum x) \<and> x \<le> now e)) \<and>
       (map_of p' ''exp'' = None \<or> map_of p' ''exp'' = Some JUndefined \<or>
        (\<exists>x. map_of p' ''exp'' = Some (JNum x) \<and> now e < x)) \<longrightarrow>
         verifySessionCookie e config c = Inr (JObj p')) \<and>
      (jose_compactVerify e key' c = Inl err' \<longrightarrow>
         verifySessionCookie e config c = Inl err') \<and>
      (jose_compactVerify e key' c = Inr (JObj p') \<and>
       (\<exists>x. map_of p' ''exp'' = Some (JNum x) \<and> x \<le> now e) \<longrightarrow>
         isl (verifySessionCookie e config c)))"
proof (intro conjI impI; (elim conjE)?)
  assume "io_get e securetokenCertsUrl = Inr keys" "jose_decodeProtectedHeader e t = Inr header"
    "kid header = Some i" "map_of keys i = Some (JStr cert)" "jose_parseX509 e cert = Inr key"
    "jose_compactVerify e key t = Inr (JObj p)"
    "map_of p ''iat'' = None \<or> map_of p ''iat'' = Some JUndefined \<or>
      (\<exists>x. map_of p ''iat'' = Some (JNum x))"
    "map_of p ''nbf'' = None \<or> map_of p ''nbf'' = Some JUndefined \<or>
      (\<exists>x. map_of p ''nbf'' = Some (JNum x) \<and> x \<le> now e)"
    "map_of p ''exp'' = None \<or> map_of p ''exp'' = Some JUndefined \<or>
      (\<exists>x. map_of p ''exp'' = Some (JNum x) \<and> now e < x)"
  then show "FirebaseAuth_verifyIdToken e config t customData = Inr (JObj p)"
    by (rule idToken_valid_verifies)
next
  assume "io_get e securetokenCertsUrl = Inr keys" "jose_decodeProtectedHeader e t = Inr header"
    "kid header = Some i" "map_of keys i = Some (JStr cert)" "jose_parseX509 e cert = Inr key"
    "jose_compactVerify e key t = Inl err"
  then show "FirebaseAuth_verifyIdToken e config t customData = Inl err"
    by (rule idToken_tampered_rejected)
next
  assume "io_get e securetokenCertsUrl = Inr keys" "jose_decodeProtectedHeader e t = Inr header"
    "kid header = Some i" "map_of keys i = Some (JStr cert)" "jose_parseX509 e cert = Inr key"
    "jose_compactVerify e key t = Inr (JObj p)"
    "\<exists>x. map_of p ''exp'' = Some (JNum x) \<and> x \<le> now e"
  then show "isl (FirebaseAuth_verifyIdToken e config t customData)"
    by (rule idToken_expired_rejected)
next
  assume "io_get e publicKeysUrl = Inr keys'" "jose_decodeProtectedHeader e c = Inr header'"
    "kid header' = Some i'" "map_of keys' i' = Some (JStr cert')" "cert' \<noteq> []"
    "jose_parseX509 e cert' = Inr key'"
    "jose_compactVerify e key' c = Inr (JObj p')"
    "map_of p' ''iss'' =
      Some (JStr (''https://session.firebase.google.com/'' @ projectId config))"
    "map_of p' ''aud'' = Some (JStr (projectId config)) \<or>
      (\<exists>xs. map_of p' ''aud'' = Some (JArr xs) \<and> JStr (projectId config) \<in> set xs)"
    "map_of p' ''iat'' = None \<or> map_of p' ''iat'' = Some JUndefined \<or>
      (\<exists>x. map_of p' ''iat'' = Some (JNum x))"
    "map_of p' ''nbf'' = None \<or> map_of p' ''nbf'' = Some JUndefined \<or>
      (\<exists>x. map_of p' ''nbf'' = Some (JNum x) \<and> x \<le> now e)"
    "map_of p' ''exp'' = None \<or> map_of p' ''exp'' = Some JUndefined \<or>
      (\<exists>x. map_of p' ''exp'' = Some (JNum x) \<and> now e < x)"
  then show "verifySessionCookie e config c = Inr (JObj p')"
    by (rule cookie_valid_verifies)
next
  assume "io_get e publicKeysUrl = Inr keys'" "jose_decodeProtectedHeader e c = Inr header'"
    "kid header' = Some i'" "map_of keys' i' = Some (JStr cert')" "cert' \<noteq> []"
    "jose_parseX509 e cert' = Inr key'"
    "jose_compactVerify e key' c = Inl err'"
  then show "verifySessionCookie e config c = Inl err'"
    by (rule cookie_tampered_rejected)
next
  assume "io_get e publicKeysUrl = Inr keys'" "jose_decodeProtectedHeader e c = Inr header'"
    "kid header' = Some i'" "map_of keys' i' = Some (JStr cert')" "cert' \<noteq> []"
    "jose_parseX509 e cert' = Inr key'"
    "jose_compactVerify e key' c = Inr (JObj p')"
    "\<exists>x. map_of p' ''exp'' = Some (JNum x) \<and> x \<le> now e"
  then show "isl (verifySessionCookie e config c)"
    by (rule cookie_expired_rejected)
qed

theorem valid_tokens_verify_invalid_rejected_witness:
  "FirebaseAuth_verifyIdToken (demoEnv (Some ''key1'') (JObj idTokenPayload) noServer)
     (demoConfig None) ''signed'' [] = Inr (JObj idTokenPayload) \<and>
   verifySessionCookie (demoEnv (Some ''key1'') (JObj sessionPayload) noServer)
     (demoConfig None) ''signed'' = Inr (JObj sessionPayload) \<and>
   FirebaseAuth_verifyIdToken (demoEnv (Some ''key1'') (JObj idTokenPayload) noServer)
     (demoConfig None) ''forged'' [] = Inl JWSSignatureVerificationFailed \<and>
   verifySessionCookie (demoEnv (Some ''key1'') (JObj sessionPayload) noServer)
     (demoConfig None) ''forged'' = Inl JWSSignatureVerificationFailed \<and>
   isl (FirebaseAuth_verifyIdToken (demoEnv (Some ''key1'') (JObj expiredPayload) noServer)
     (demoConfig None) ''signed'' []) \<and>
   isl (verifySessionCookie (demoEnv (Some ''key1'') (JObj expiredPayload) noServer)
     (demoConfig None) ''signed'')"
proof -
  let ?i = "demoEnv (Some ''key1'') (JObj idTokenPayload) noServer"
  let ?e = "demoEnv (Some ''key1'') (JObj sessionPayload) noServer"
  let ?x = "demoEnv (Some ''key1'') (JObj expiredPayload) noServer"
  let ?h = "\<lparr>kid = Some ''key1''\<rparr>"
  have sel: "io_get (demoEnv k pl noServer) securetokenCertsUrl = Inr demoKeys"
    "io_get (demoEnv k pl noServer) publicKeysUrl = Inr demoKeys"
    "jose_decodeProtectedHeader (demoEnv k pl noServer) t = Inr \<lparr>kid = k\<rparr>"
    "jose_parseX509 (demoEnv k pl noServer) ''CERT1'' = Inr (KeyLike ''PK1'')"
    "jose_compactVerify (demoEnv k pl noServer) (KeyLike ''PK1'') ''signed'' = Inr pl"
    "jose_compactVerify (demoEnv k pl noServer) (KeyLike ''PK1'') ''forged''
       = Inl JWSSignatureVerificationFailed"
    "now (demoEnv k pl noServer) = 1000"
    "map_of demoKeys ''key1'' = Some (JStr ''CERT1'')"
    "''CERT1'' \<noteq> []" "kid \<lparr>kid = k\<rparr> = k"
    for k pl t by (simp_all add: demo_defs)
  have claims: "map_of idTokenPayload ''iss'' = Some (JStr ''https://securetoken.google.com/demo'')"
    "map_of idTokenPayload ''aud'' = Some (JStr ''demo'')"
    "map_of idTokenPayload ''iat'' = None" "map_of idTokenPayload ''nbf'' = None"
    "map_of idTokenPayload ''exp'' = Some (JNum 2000)"
    "map_of sessionPayload ''iss'' = Some (JStr ''https://session.firebase.google.com/demo'')"
    "map_of sessionPayload ''aud'' = Some (JStr ''demo'')"
    "map_of sessionPayload ''iat'' = None" "map_of sessionPayload ''nbf'' = None"
    "map_of sessionPayload ''exp'' = Some (JNum 2000)"
    "map_of expiredPayload ''exp'' = Some (JNum 900)"
    "projectId (demoConfig None) = ''demo''"
    by (simp_all add: demo_defs)
  note a = valid_tokens_verify_invalid_rejected
    [where e = ?i and t = "''signed''" and keys = demoKeys and header = ?h and i = "''key1''"
      and cert = "''CERT1''" and key = "KeyLike ''PK1''" and p = idTokenPayload
      and config = "demoConfig None" and customData = "[]", THEN conjunct1]
  note b = valid_tokens_verify_invalid_rejected
    [where e = ?e and c = "''signed''" and keys' = demoKeys and header' = ?h
      and i' = "''key1''" and cert' = "''CERT1''" and key' = "KeyLike ''PK1''"
      and p' = sessionPayload and config = "demoConfig None", THEN conjunct2]
  note c = valid_tokens_verify_invalid_rejected
    [where e = ?i and t = "''forged''" and keys = demoKeys and header = ?h and i = "''key1''"
      and cert = "''CERT1''" and key = "KeyLike ''PK1''"
      and err = JWSSignatureVerificationFailed
      and config = "demoConfig None" and customData = "[]", THEN conjunct1]
  note d = valid_tokens_verify_invalid_rejected
    [where e = ?e and c = "''forged''" and keys' = demoKeys and header' = ?h
      and i' = "''key1''" and cert' = "''CERT1''" and key' = "KeyLike ''PK1''"
      and err' = JWSSignatureVerificationFailed
      and config = "demoConfig None", THEN conjunct2]
  note f = valid_tokens_verify_invalid_rejected
    [where e = ?x and t = "''signed''" and keys = demoKeys and header = ?h and i = "''key1''"
      and cert = "''CERT1''" and key = "KeyLike ''PK1''" and p = expiredPayload
      and config = "demoConfig None" and customData = "[]", THEN conjunct1]
  note g = valid_tokens_verify_invalid_rejected
    [where e = ?x and c = "''signed''" and keys' = demoKeys and header' = ?h
      and i' = "''key1''" and cert' = "''CERT1''" and key' = "KeyLike ''PK1''"
      and p' = expiredPayload and config = "demoConfig None", THEN conjunct2]
  from a have "FirebaseAuth_verifyIdToken ?i (demoConfig None) ''signed'' []
      = Inr (JObj idTokenPayload)"
    by (simp add: sel claims)
  moreover from b have "verifySessionCookie ?e (demoConfig None) ''signed''
      = Inr (JObj sessionPayload)"
    by (simp add: sel claims)
  moreover from c have "FirebaseAuth_verifyIdToken ?i (demoConfig None) ''forged'' []
      = Inl JWSSignatureVerificationFailed"
    by (simp add: sel)
  moreover from d have "verifySessionCookie ?e (demoConfig None) ''forged''
      = Inl JWSSignatureVerificationFailed"
    by (simp add: sel)
  moreover from f have "isl (FirebaseAuth_verifyIdToken ?x (demoConfig None) ''signed'' [])"
    by (simp add: sel claims)
  moreover from g have "isl (verifySessionCookie ?x (demoConfig None) ''signed'')"
    by (simp add: sel claims)
  ultimately show ?thesis by (intro conjI)
qed




text \<open>
  C6. \<open>getToken\<close> caches the OAuth token under the key \<open>google-oauth\<close> for 3600
  seconds. Without a configured cache it is \<open>getAuthToken\<close>. With a cache holding a
  truthy value under the key, that value is returned and the world is unchanged, whatever
  the action passed to \<open>withCache\<close> is: the action is not run. With a cache that gives a
  falsy value (an absent or expired entry reads \<open>null\<close>), \<open>getAuthToken\<close> is run; its
  result is stored under the key, to expire 3600 seconds from now, and returned; its
  failure is passed on and nothing is stored.
\<close>

theorem getToken_caches_oauth_token:
  "(cache config = None \<longrightarrow>
      getToken e config w =
        getAuthToken e (serviceAccountEmail config) (privateKey config) identityScope w) \<and>
   (cache config = Some c \<and> \<not> falsy (cache_get e c ''google-oauth'' w) \<longrightarrow>
      getToken e config w = (Inr (cache_get e c ''google-oauth'' w), w) \<and>
      withCache e config action ''google-oauth'' 3600 w
        = (Inr (cache_get e c ''google-oauth'' w), w)) \<and>
   (cache config = Some c \<and> falsy (cache_get e c ''google-oauth'' w) \<and>
    getAuthToken e (serviceAccountEmail config) (privateKey config) identityScope w
      = (Inr token, w1) \<longrightarrow>
      getToken e config w = (Inr token, cache_put e c ''google-oauth'' token 3600 w1) \<and>
      kv (cache_put e c ''google-oauth'' token 3600 w1) c ''google-oauth''
        = Some (token, now e + 3600) \<and>
      cache_get e c ''google-oauth'' (cache_put e c ''google-oauth'' token 3600 w1) = token) \<and>
   (cache config = Some c \<and> falsy (cache_get e c ''google-oauth'' w) \<and>
    getAuthToken e (serviceAccountEmail config) (privateKey config) identityScope w
      = (Inl err, w1) \<longrightarrow>
      getToken e config w = (Inl err, w1)) \<and>
   (kv w c ''google-oauth'' = None \<longrightarrow> falsy (cache_get e c ''google-oauth'' w))"
  by (simp add: getToken_def identityScope_def withCache_none withCache_hit withCache_miss
        withCache_miss_error kv_cache_put cache_get_put cache_get_absent)

theorem getToken_caches_oauth_token_witness:
  "fst (getToken (demoEnv None JNull demoServer) (demoConfig None) emptyWorld)
     = Inr (JStr ''OAUTH'') \<and>
   getToken (demoEnv None JNull demoServer) (demoConfig (Some (CloudflareKv ''NS'')))
       (cachedWorld (JStr ''CACHED'') 5000)
     = (Inr (JStr ''CACHED''), cachedWorld (JStr ''CACHED'') 5000) \<and>
   fst (getToken (demoEnv None JNull demoServer) (demoConfig (Some (CloudflareKv ''NS'')))
       emptyWorld) = Inr (JStr ''OAUTH'') \<and>
   kv (snd (getToken (demoEnv None JNull demoServer) (demoConfig (Some (CloudflareKv ''NS'')))
       emptyWorld)) (CloudflareKv ''NS'') ''google-oauth'' = Some (JStr ''OAUTH'', 4600) \<and>
   getToken (demoEnv None JNull noServer) (demoConfig (Some (CloudflareKv ''NS'')))
       (cachedWorld (JStr ''OLD'') 900)
     = (Inl NetworkError,
        posted \<lparr>url = tokenEndpoint,
                payload = FormBody
                  [(''grant_type'', ''urn:ietf:params:oauth:grant-type:jwt-bearer''),
                   (''assertion'', ''assertion'')],
                headers = [(''Content-Type'', ''application/x-www-form-urlencoded'')]\<rparr>
          (cachedWorld (JStr ''OLD'') 900)) \<and>
   falsy (cache_get (demoEnv None JNull demoServer) (CloudflareKv ''NS'') ''google-oauth''
       emptyWorld)"
proof -
  let ?n = "demoEnv None JNull noServer"
  let ?old = "cachedWorld (JStr ''OLD'') 900"
  let ?e = "demoEnv None JNull demoServer"
  let ?c = "CloudflareKv ''NS''"
  let ?r = "\<lparr>url = tokenEndpoint,
              payload = FormBody
                [(''grant_type'', ''urn:ietf:params:oauth:grant-type:jwt-bearer''),
                 (''assertion'', ''assertion'')],
              headers = [(''Content-Type'', ''application/x-www-form-urlencoded'')]\<rparr>"
  have cfg: "cache (demoConfig None) = None" "cache (demoConfig (Some ?c)) = Some ?c"
    "serviceAccountEmail (demoConfig x) = ''sa@demo''" "privateKey (demoConfig x) = ''PRIVATE''"
    for x by (simp_all add: demoConfig_def)
  have hit: "cache_get ?e ?c ''google-oauth'' (cachedWorld (JStr ''CACHED'') 5000) = JStr ''CACHED''"
    by (simp add: cache_get_def demo_defs)
  have miss: "cache_get ?e ?c ''google-oauth'' emptyWorld = JNull"
    by (simp add: cache_get_def demo_defs)
  have t: "now ?e = 1000" by (simp add: demo_defs)
  note a = getToken_caches_oauth_token [of "demoConfig None" ?e emptyWorld]
  note b = getToken_caches_oauth_token
    [of "demoConfig (Some ?c)" ?e "cachedWorld (JStr ''CACHED'') 5000" ?c]
  note c = getToken_caches_oauth_token
    [of "demoConfig (Some ?c)" ?e emptyWorld ?c _ "JStr ''OAUTH''" "posted ?r emptyWorld"]
  have "fst (getToken ?e (demoConfig None) emptyWorld) = Inr (JStr ''OAUTH'')"
    using a cfg by (simp add: demo_getAuthToken)
  moreover have "getToken ?e (demoConfig (Some ?c)) (cachedWorld (JStr ''CACHED'') 5000)
     = (Inr (JStr ''CACHED''), cachedWorld (JStr ''CACHED'') 5000)"
    using b cfg hit by simp
  moreover have "getToken ?e (demoConfig (Some ?c)) emptyWorld
     = (Inr (JStr ''OAUTH''), cache_put ?e ?c ''google-oauth'' (JStr ''OAUTH'') 3600
          (posted ?r emptyWorld))"
    using c cfg miss by (simp add: demo_getAuthToken)
  moreover have stale: "cache_get ?n ?c ''google-oauth'' ?old = JNull"
    by (simp add: cache_get_def demo_defs)
  have down: "getAuthToken ?n ''sa@demo'' ''PRIVATE'' identityScope ?old
      = (Inl NetworkError, posted ?r ?old)"
    by (simp add: getAuthToken_def demo_defs axios_post_eq)
  have "getToken ?n (demoConfig (Some ?c)) ?old = (Inl NetworkError, posted ?r ?old)"
    using getToken_caches_oauth_token
      [where config = "demoConfig (Some ?c)" and e = ?n and w = ?old and c = ?c
        and err = NetworkError and ?w1.0 = "posted ?r ?old"]
      cfg stale down
    by simp
  moreover have "falsy (cache_get ?e ?c ''google-oauth'' emptyWorld)"
    using getToken_caches_oauth_token [where w = emptyWorld and c = ?c and e = ?e]
    by (simp add: emptyWorld_def)
  ultimately show ?thesis by (simp add: kv_cache_put t)
qed

text \<open>
  C7. For every email and password, \<open>signInWithEmailAndPassword\<close> first posts
  \<open>{email, password, returnSecureToken: 'true'}\<close> to \<open>accounts:signInWithPassword\<close>, and
  it returns the pair \<open>{token, user}\<close> exactly when that request is answered with status
  200, \<open>token\<close> is the response body and \<open>user\<close> is what \<open>lookupUser\<close> returns for
  \<open>token.idToken\<close>, called after the first request. Likewise
  \<open>signUpWithEmailAndPassword\<close> with \<open>accounts:signUp\<close>.
\<close>

theorem sign_in_returns_token_and_user:
  "(\<exists>rest. sent (snd (signInWithEmailAndPassword e config email password w)) =
      sent w @ accountsRequest config ''signInWithPassword'' (credentials email password) # rest) \<and>
   (signInWithEmailAndPassword e config email password w = (Inr (token, user), w2) \<longleftrightarrow>
     (\<exists>res idToken.
        io_post e (sent w)
          (accountsRequest config ''signInWithPassword'' (credentials email password)) = Inr res \<and>
        status res = 200 \<and> token = data res \<and>
        getMember token IdToken = Inr idToken \<and>
        lookupUser e config idToken
          (posted (accountsRequest config ''signInWithPassword'' (credentials email password)) w)
          = (Inr user, w2))) \<and>
   (\<exists>rest. sent (snd (signUpWithEmailAndPassword e config email password w)) =
      sent w @ accountsRequest config ''signUp'' (credentials email password) # rest) \<and>
   (signUpWithEmailAndPassword e config email password w = (Inr (token, user), w2) \<longleftrightarrow>
     (\<exists>res idToken.
        io_post e (sent w)
          (accountsRequest config ''signUp'' (credentials email password)) = Inr res \<and>
        status res = 200 \<and> token = data res \<and>
        getMember token IdToken = Inr idToken \<and>
        lookupUser e config idToken
          (posted (accountsRequest config ''signUp'' (credentials email password)) w)
          = (Inr user, w2)))"
  using signIn_first_request signIn_Inr signUp_first_request signUp_Inr by (intro conjI)

theorem sign_in_returns_token_and_user_witness:
  "fst (signInWithEmailAndPassword (demoEnv None JNull demoServer) (demoConfig None)
          ''a@b.c'' ''secret'' emptyWorld)
     = Inr (JObj [(''idToken'', JStr ''ID1'')], JObj [(''email'', JStr ''a@b.c'')]) \<and>
   fst (signUpWithEmailAndPassword (demoEnv None JNull demoServer) (demoConfig None)
          ''a@b.c'' ''secret'' emptyWorld)
     = Inr (JObj [(''idToken'', JStr ''ID1'')], JObj [(''email'', JStr ''a@b.c'')])"
proof -
  let ?e = "demoEnv None JNull demoServer"
  let ?c = "demoConfig None"
  let ?res = "\<lparr>status = 200, data = JObj [(''idToken'', JStr ''ID1'')]\<rparr>"
  let ?user = "JObj [(''email'', JStr ''a@b.c'')]"
  let ?w1 = "posted (accountsRequest ?c ''signInWithPassword'' (credentials ''a@b.c'' ''secret''))
               emptyWorld"
  let ?w2 = "posted (accountsRequest ?c ''signUp'' (credentials ''a@b.c'' ''secret'')) emptyWorld"
  have post: "io_post ?e (sent emptyWorld)
      (accountsRequest ?c ''signInWithPassword'' (credentials ''a@b.c'' ''secret'')) = Inr ?res"
    "io_post ?e (sent emptyWorld)
      (accountsRequest ?c ''signUp'' (credentials ''a@b.c'' ''secret'')) = Inr ?res"
    by (simp_all add: demo_defs accountsRequest_def tokenEndpoint_def BASE_URL_def)
  have idt: "getMember (data ?res) IdToken = Inr (JStr ''ID1'')"
    by (simp add: claim_def)
  have lk: "lookupUser ?e ?c (JStr ''ID1'') w = (Inr ?user, snd (lookupUser ?e ?c (JStr ''ID1'') w))"
    for w using demo_lookupUser [of w] by (simp add: prod_eq_iff)
  have "\<exists>res idToken.
        io_post ?e (sent emptyWorld)
          (accountsRequest ?c ''signInWithPassword'' (credentials ''a@b.c'' ''secret'')) = Inr res \<and>
        status res = 200 \<and> data ?res = data res \<and>
        getMember (data ?res) IdToken = Inr idToken \<and>
        lookupUser ?e ?c idToken ?w1 = (Inr ?user, snd (lookupUser ?e ?c (JStr ''ID1'') ?w1))"
    by (rule exI [of _ ?res], rule exI [of _ "JStr ''ID1''"])
      (use post(1) idt lk [of ?w1] in simp)
  then have "signInWithEmailAndPassword ?e ?c ''a@b.c'' ''secret'' emptyWorld
      = (Inr (data ?res, ?user), snd (lookupUser ?e ?c (JStr ''ID1'') ?w1))"
    using sign_in_returns_token_and_user
      [where e = ?e and config = ?c and email = "''a@b.c''" and password = "''secret''"
        and w = emptyWorld and token = "data ?res" and user = ?user
        and ?w2.0 = "snd (lookupUser ?e ?c (JStr ''ID1'') ?w1)"]
    by blast
  moreover have "\<exists>res idToken.
        io_post ?e (sent emptyWorld)
          (accountsRequest ?c ''signUp'' (credentials ''a@b.c'' ''secret'')) = Inr res \<and>
        status res = 200 \<and> data ?res = data res \<and>
        getMember (data ?res) IdToken = Inr idToken \<and>
        lookupUser ?e ?c idToken ?w2 = (Inr ?user, snd (lookupUser ?e ?c (JStr ''ID1'') ?w2))"
    by (rule exI [of _ ?res], rule exI [of _ "JStr ''ID1''"])
      (use post(2) idt lk [of ?w2] in simp)
  then have "signUpWithEmailAndPassword ?e ?c ''a@b.c'' ''secret'' emptyWorld
      = (Inr (data ?res, ?user), snd (lookupUser ?e ?c (JStr ''ID1'') ?w2))"
    using sign_in_returns_token_and_user
      [where e = ?e and config = ?c and email = "''a@b.c''" and password = "''secret''"
        and w = emptyWorld and token = "data ?res" and user = ?user
        and ?w2.0 = "snd (lookupUser ?e ?c (JStr ''ID1'') ?w2)"]
    by blast
  ultimately show ?thesis by simp
qed

text \<open>
  C8. The \<open>customData\<close> argument of \<open>FirebaseAuth.verifyIdToken\<close> has no effect: for
  every token and any two values of \<open>customData\<close> the two calls give the same outcome,
  since the module's function takes the token only.
\<close>

theorem customData_has_no_effect:
  "FirebaseAuth_verifyIdToken e config idToken customData =
     FirebaseAuth_verifyIdToken e config idToken customData' \<and>
   FirebaseAuth_verifyIdToken e config idToken customData = verifyIdToken e idToken"
  by (simp add: FirebaseAuth_verifyIdToken_def)

text \<open>
  C9. The claim: for every session cookie whose header's \<open>kid\<close> is not a key of the
  fetched set, \<open>verifySessionCookie\<close> throws \<open>Cannot find public key\<close> before any
  certificate import; \<open>verifyIdToken\<close> has no such check and goes on with the missing
  certificate. The guard is \<open>!data[header.kid]\<close>, and a \<open>kid\<close> that names a property
  inherited from \<open>Object.prototype\<close> reads a truthy built-in: evaluated here, the
  \<open>kid\<close> \<open>constructor\<close>, not a key of the fetched set, passes the guard and the import
  is attempted and fails with a TypeError. For a \<open>kid\<close> that is neither an own nor an
  inherited property the claim holds (\<open>verifySessionCookie_missing_key\<close>,
  \<open>verifyIdToken_missing_key\<close>).
\<close>

theorem verifySessionCookie_inherited_kid:
  "map_of demoKeys ''constructor'' = None \<and>
   jose_decodeProtectedHeader (demoEnv (Some ''constructor'') (JObj sessionPayload) noServer)
     ''signed'' = Inr \<lparr>kid = Some ''constructor''\<rparr> \<and>
   getProperty demoKeys ''constructor'' = Builtin ''constructor'' \<and>
   verifySessionCookie (demoEnv (Some ''constructor'') (JObj sessionPayload) noServer)
     (demoConfig None) ''signed'' = Inl TypeError \<and>
   verifySessionCookie (demoEnv (Some ''missing'') (JObj sessionPayload) noServer)
     (demoConfig None) ''signed'' = Inl (Error (JStr ''Cannot find public key'')) \<and>
   verifyIdToken (demoEnv (Some ''missing'') (JObj sessionPayload) noServer) ''signed''
     = Inl TypeError"
  by (simp add: verifySessionCookie_def verifyIdToken_def demo_defs getProperty_def
        objectPrototypeNames_def)

text \<open>
  C10. For every \<open>uid\<close>, \<open>setCustomUserClaims(uid, null)\<close> is
  \<open>setCustomUserClaims(uid, {})\<close>: the text of the empty object is \<open>{}\<close>, and once the
  OAuth token is there the request sent carries \<open>localId\<close> equal to \<open>uid\<close> and
  \<open>customAttributes\<close> equal to \<open>{}\<close>. No size check is made on the claims: for every
  claims object \<open>c\<close>, of any size, the request with its JSON text is posted and the
  outcome is the surfaced answer of the server.
\<close>

theorem null_claims_are_empty_claims:
  "setCustomUserClaims e config uid None w = setCustomUserClaims e config uid (Some []) w \<and>
   JSON_stringify e [] = ''{}'' \<and>
   (getToken e config w = (Inr token, w1) \<and> toStringJS e token = Inr bearer \<longrightarrow>
      sent (snd (setCustomUserClaims e config uid None w))
        = sent w1 @ [claimsRequest config bearer uid ''{}''] \<and>
      setCustomUserClaims e config uid (Some c) w =
        (surfaces e (io_post e (sent w1) (claimsRequest config bearer uid (JSON_stringify e c))) Inr,
         posted (claimsRequest config bearer uid (JSON_stringify e c)) w1))"
proof (intro conjI impI; (elim conjE)?)
  show "setCustomUserClaims e config uid None w = setCustomUserClaims e config uid (Some []) w"
    by (simp add: setCustomUserClaims_def)
  show "JSON_stringify e [] = ''{}''" by (rule JSON_stringify_empty)
next
  assume "getToken e config w = (Inr token, w1)" "toStringJS e token = Inr bearer"
  then show "sent (snd (setCustomUserClaims e config uid None w))
        = sent w1 @ [claimsRequest config bearer uid ''{}'']"
    by (simp add: setCustomUserClaims_with_token JSON_stringify_empty)
next
  assume "getToken e config w = (Inr token, w1)" "toStringJS e token = Inr bearer"
  then show "setCustomUserClaims e config uid (Some c) w =
        (surfaces e (io_post e (sent w1) (claimsRequest config bearer uid (JSON_stringify e c))) Inr,
         posted (claimsRequest config bearer uid (JSON_stringify e c)) w1)"
    by (simp add: setCustomUserClaims_with_token)
qed

theorem null_claims_are_empty_claims_witness:
  "sent (snd (setCustomUserClaims (demoEnv None JNull demoServer) (demoConfig None) ''u1'' None
       emptyWorld))
     = [\<lparr>url = tokenEndpoint,
         payload = FormBody
           [(''grant_type'', ''urn:ietf:params:oauth:grant-type:jwt-bearer''),
            (''assertion'', ''assertion'')],
         headers = [(''Content-Type'', ''application/x-www-form-urlencoded'')]\<rparr>,
        claimsRequest (demoConfig None) ''OAUTH'' ''u1'' ''{}''] \<and>
   1000 < length (JSON_stringify (demoEnv None JNull demoServer) bigClaims) \<and>
   fst (setCustomUserClaims (demoEnv None JNull demoServer) (demoConfig None) ''u1''
       (Some bigClaims) emptyWorld) = Inr (JObj [])"
proof -
  let ?e = "demoEnv None JNull demoServer"
  let ?r = "\<lparr>url = tokenEndpoint,
         payload = FormBody
           [(''grant_type'', ''urn:ietf:params:oauth:grant-type:jwt-bearer''),
            (''assertion'', ''assertion'')],
         headers = [(''Content-Type'', ''application/x-www-form-urlencoded'')]\<rparr>"
  have tok: "getToken ?e (demoConfig None) emptyWorld = (Inr (JStr ''OAUTH''), posted ?r emptyWorld)"
    by (rule demo_getToken)
  have str: "toStringJS ?e (JStr ''OAUTH'') = Inr ''OAUTH''" by simp
  note t = null_claims_are_empty_claims
    [where e = ?e and config = "demoConfig None" and uid = "''u1''" and w = emptyWorld
      and token = "JStr ''OAUTH''" and ?w1.0 = "posted ?r emptyWorld" and bearer = "''OAUTH''"
      and c = bigClaims]
  from t tok str have
    "sent (snd (setCustomUserClaims ?e (demoConfig None) ''u1'' None emptyWorld))
       = sent (posted ?r emptyWorld) @ [claimsRequest (demoConfig None) ''OAUTH'' ''u1'' ''{}'']"
    "setCustomUserClaims ?e (demoConfig None) ''u1'' (Some bigClaims) emptyWorld =
        (surfaces ?e (io_post ?e (sent (posted ?r emptyWorld))
            (claimsRequest (demoConfig None) ''OAUTH'' ''u1'' (JSON_stringify ?e bigClaims))) Inr,
         posted (claimsRequest (demoConfig None) ''OAUTH'' ''u1'' (JSON_stringify ?e bigClaims))
           (posted ?r emptyWorld))"
    by blast+
  then show ?thesis
    by (simp add: emptyWorld_def demoServer_claims surfaces_def bigClaims_length)
qed

end
